theory Spec2Isabelle
  imports Main
begin

section \<open>The notebook document\<close>

text \<open>
  The repository is one file, \<^verbatim>\<open>ULAB_FRBs.ipynb\<close>: a JSON document in the Jupyter
  notebook format. It is embedded as the JSON value it denotes. Objects are association
  lists in the order of the file, strings are byte strings (UTF-8), and every number of the
  file is an integer.
\<close>

datatype json =
    JNull
  | JBool bool
  | JInt int
  | JString string
  | JArray "json list"
  | JObject "(string \<times> json) list"

text \<open>
  Two bytes of the cell texts cannot stand in a string literal: the backslash of the
  LaTeX commands, and the em dash (U+2014, three bytes in UTF-8).
\<close>

abbreviation bslash :: char where
  "bslash \<equiv> CHR 0x5C"

abbreviation emdash :: string where
  "emdash \<equiv> [CHR 0xE2, CHR 0x80, CHR 0x94]"

subsection \<open>The fifteen cells, in the order of the file\<close>

definition competent_timeline :: json where
  \<open>competent_timeline = JObject [
      (''cell_type'', JString ''markdown''),
      (''id'', JString ''competent-timeline''),
      (''metadata'', JObject []),
      (''source'', JArray [
        JString ''## ULAB FRBs\<newline>'',
        JString ''#### Kyle Miller''])]\<close>

definition composed_starter :: json where
  \<open>composed_starter = JObject [
      (''cell_type'', JString ''code''),
      (''execution_count'', JInt 1),
      (''id'', JString ''composed-starter''),
      (''metadata'', JObject []),
      (''outputs'', JArray []),
      (''source'', JArray [
        JString ''# these are useful packages to import for astronomy (typical syntax)\<newline>'',
        JString ''import astropy.units as u\<newline>'',
        JString ''import astropy.constants as c\<newline>'',
        JString ''\<newline>'',
        JString ''# these are typical packages used in jupyter notebooks\<newline>'',
        JString ''import numpy as np\<newline>'',
        JString ''import matplotlib.pyplot as plt\<newline>'',
        JString ''from tqdm import tqdm\<newline>'',
        JString ''\<newline>'',
        JString ''# these are useful packages for science/engineering in general\<newline>'',
        JString ''from scipy import signal\<newline>'',
        JString ''from scipy import integrate\<newline>'',
        JString ''from scipy import fftpack\<newline>'',
        JString ''from scipy import optimize\<newline>'',
        JString ''from scipy import ndimage\<newline>'',
        JString '' \<newline>'',
        JString ''# this is the package for plasma-related physics (it uses astropy)\<newline>'',
        JString ''from plasmapy import dispersion\<newline>'',
        JString ''from plasmapy import formulary\<newline>'',
        JString ''from plasmapy import simulation\<newline>'',
        JString ''\<newline>'',
        JString ''# to get interactive plots uncomment the "magic" line below\<newline>'',
        JString ''# %matplotlib notebook''])]\<close>

definition democratic_liver :: json where
  \<open>democratic_liver = JObject [
      (''cell_type'', JString ''markdown''),
      (''id'', JString ''democratic-liver''),
      (''metadata'', JObject []),
      (''source'', JArray [
        JString ''### Astronomy: gravitation and electromagnetism\<newline>'',
        JString ''\<newline>'',
        JString (''In this quick introduction to astronomical research it would be good to cover '' @
                 ''the basic physics before moving into the particulars of radio astronomy and '' @
                 ''fast radio bursts (FRBs). Often in physics the universe is portrayed as a soup '' @
                 ''of quantum particles that do strange quantum things and somehow build up into '' @
                 ''what is observed in nature. This is typically called *reductionism* in the '' @
                 ''philosophical parlance. However, there are alternative views like *emergence* '' @
                 ''where lots of smaller things can become other bigger things with there own '' @
                 ''behaviors and laws. In classical physics the "three-body problem" makes '' @
                 ''analytical (pen and paper) solutions mostly impossible for any system with 3+ '' @
                 ''bodies, like the Sun, Earth and moon. Whereas in quantum mechanics and '' @
                 ''relativity calculating systems with more than 2 particles results in a similar '' @
                 ''impasse. Usually the way around this is going to numerical solutions and '' @
                 ''methods, which basically means using the computer to do the calculations!\<newline>''),
        JString ''\<newline>'',
        JString (''For astronomers'' @ emdash @
                 ''with the exception for stellar fusion, quantum line emissions, and a few '' @
                 ''high-energy processes like the big bang'' @ emdash @
                 ''the majority of the physics is gravitation and electromagnetism (plus the '' @
                 ''majority of the *quantized* emission spectra, like the rotational and '' @
                 ''vibrational transisitions of radio astronomy, is typically found experimentally '' @
                 ''not theoretically, with the major exception being 21cm neutral hydrogen '' @
                 ''spin-flip transition, which you will encounter if you take quantum physics!). '' @
                 ''These two areas of physics have a lot in common, e.g., in CGS units astronomers '' @
                 ''tend to use\<newline>''),
        JString ''\<newline>'',
        JString (''$$ F_{G} = '' @ bslash # ''frac{G m_1 m_2}{r^2} '' @ bslash # '';'' @ bslash #
                 ''; '' @ bslash # ''& '' @ bslash # '';'' @ bslash # ''; F_{EM} = '' @ bslash #
                 ''frac{q_1 q_2}{r^2}, $$\<newline>''),
        JString ''\<newline>'',
        JString (''where the "charge" ($q_i$ for electromagnetism) of gravity is typically mass, '' @
                 ''$m_i$, but could be energy $E = '' @ bslash #
                 ''gamma m c^2$, and $r$ is the radial distance between the charges; although they '' @
                 ''are typically compared by strength: the ratio of the gravitational to '' @
                 ''electromagnetic force **for particles** is on the order of $'' @ bslash #
                 ''sim 10^{42}$, with gravity being the lesser. For astronomical bodies, however, '' @
                 ''gravitation is often playing the larger role. Magnetic fields, which are harder '' @
                 ''to observe than massive (hot) things, are often neglected (especially in '' @
                 ''undergraduate classes). Radio astronomy is probably the best tool for '' @
                 ''visualizing magnetic fields outside of the solar system for a variety of reasons'' @
                 emdash @
                 ''but mostly because of the way electromagnetic (radio) waves propagate through '' @
                 ''regions with magnetic fields (spectral line splitting, i.e., the Zeeman effect, '' @
                 ''and a few other techniques like polarization can be used in certain cases at '' @
                 ''other wavebands).\<newline>''),
        JString ''\<newline>'',
        JString (''If you have completed the $5/7$ series or equivalent you probably have seen '' @
                 ''Maxwell's equations. These come up in an area of astronomy called '' @
                 ''magnetohydrodynamics where they are combined with the equations of fluids, '' @
                 ''which typically includes gravity, to produce a system of equations that can be '' @
                 ''used to model plasma and other astrophysical objects like accretion disks. This '' @
                 ''is a very involved field'' @ emdash @
                 ''but is much easier than trying to solve Schrodinger's equation for zillions of '' @
                 ''particles'' @ emdash @
                 ''so the important results and tools like dispersion relations will be covered '' @
                 ''below without any derivations, just hand wavy arguments and pictures '' @
                 ''(observational astronomers, like Faraday, typically think about magnetic fields '' @
                 ''as *lines of force* anyways). The prototypical image of dispersion is the prism '' @
                 ''and there is also an image of magnetic field lines in radio-loud galaxy '' @
                 ''Centarus A\<newline>''),
        JString ''\<newline>'',
        JString ''![prism](images/prism.jpeg)\<newline>'',
        JString ''\<newline>'',
        JString ''![cenA](images/cenA.png)''])]\<close>

definition signed_minneapolis :: json where
  \<open>signed_minneapolis = JObject [
      (''cell_type'', JString ''markdown''),
      (''id'', JString ''signed-minneapolis''),
      (''metadata'', JObject []),
      (''source'', JArray [
        JString (''(images from: https://www.cyberphysics.co.uk/topics/light/dispersion.htm and '' @
                 ''https://www.sofia.usra.edu/publications/science-results-archive/warped-magnetic-'' @
                 ''field-centaurus). Of course, radio waves are not as colorful altough they can '' @
                 ''make sounds! Thunderstorms are very bright sources of radio waves and actually '' @
                 ''power a resonance in the Earth's atmosphere that pulsates at around $7$ Hz; the '' @
                 ''FRBs are much more energetic and are typically oscillating around $1$ GHz (for '' @
                 ''comparison, Wi-Fi and microwave ovens operate around $2.4/5$ GHz).\<newline>''),
        JString ''\<newline>'',
        JString ''\<newline>'',
        JString (''The most important physics for FRBs and radio astronomy, at the basic level, '' @
                 ''will be the concepts of luminosity and flux density. Luminosity, $L$, is '' @
                 ''basically a pseudonym for power or $E/t$ (energy/time). For a black body (an '' @
                 ''object in thermal equilibrium, i.e., roughly the same temperature as its '' @
                 ''surroundings) the luminosity is given by the Steffan-Boltzmann equation\<newline>''),
        JString ''\<newline>'',
        JString (''$$ L = 4'' @ bslash # ''pi r_*^2 '' @ bslash # ''sigma T^4$$\<newline>''),
        JString ''\<newline>'',
        JString (''where $r_*$ is the radius of the object, $'' @ bslash #
                 ''sigma$ is the Steffan-Boltzmann constant, and $T$ is the temperature of the '' @
                 ''object. The flux density then is is defined as \<newline>''),
        JString ''\<newline>'',
        JString (''$$ F = '' @ bslash # ''frac{L}{4'' @ bslash # ''pi r_{path}^2 } $$\<newline>''),
        JString ''\<newline>'',
        JString (''which is essentailly luminosity/surface area with $r_{path}$ being the path of '' @
                 ''a given ray being emitted from the luminous object (usually assumed to be a '' @
                 ''black body). Stars, for example, are not perfect black bodies, but they are '' @
                 ''close enough that there "surface" temperature (the photosphere) is used as an '' @
                 ''"effective" temperature ($T_'' @ bslash # ''odot '' @ bslash #
                 ''approx 5777 $) for the equation above and the results are in generally good '' @
                 ''agreement with observations. The following image shows the difference between a '' @
                 ''perfect blackbody and the Sun's actualy spectrum.\<newline>''),
        JString ''\<newline>'',
        JString ''![](images/sun_spectrum.png)\<newline>'',
        JString ''\<newline>'',
        JString (''Image source: [https://physics.stackexchange.com/questions/130209/how-can-it-be-'' @
                 ''that-the-sun-emits-more-than-a-black-body](https://physics.stackexchange.com/que'' @
                 ''stions/130209/how-can-it-be-that-the-sun-emits-more-than-a-black-body).\<newline>''),
        JString ''\<newline>'',
        JString (''The Steffan-Boltzman law above comes from integrating the Planck black body '' @
                 ''formula\<newline>''),
        JString ''\<newline>'',
        JString (''$$ B('' @ bslash # ''nu, T) = '' @ bslash # ''frac{2 h '' @ bslash #
                 ''nu^3 }{c^2} '' @ bslash # ''frac{1}{e^{h '' @ bslash #
                 ''nu / k_B T} - 1 } $$\<newline>''),
        JString ''\<newline>'',
        JString (''over all frequencies, $'' @ bslash #
                 ''nu$. $h$ is Planck's constant, $k_B$ is Boltzmann's constant, and $c$ is the '' @
                 ''speed of light. For radio astronomy, at relatively low frequencies, this '' @
                 ''formula can be simplified with a Taylor series approximation for the '' @
                 ''exponential. This is known as the Rayleigh-Jeans limit. When $h'' @ bslash # ''nu '' @
                 bslash # ''ll k_B T$ the exponential can be approximated as\<newline>''),
        JString ''\<newline>'',
        JString (''$$ e^{h '' @ bslash # ''nu / k_B T} '' @ bslash # ''approx 1 + '' @ bslash #
                 ''frac{h '' @ bslash # ''nu}{k_B T}$$\<newline>''),
        JString ''\<newline>'',
        JString ''and then the two ones cancel out yielding the following (approximate) formula\<newline>'',
        JString ''\<newline>'',
        JString (''$$ B('' @ bslash # ''nu, T) = '' @ bslash # ''frac{2 h '' @ bslash #
                 ''nu^2 k_B T_B }{c^2} $$\<newline>''),
        JString ''\<newline>'',
        JString (''where the temperature is known as the "brightness temperature" $T_B$. This '' @
                 ''allows radio astronomers to get an approximate temperature for objects based on '' @
                 ''the flux recived, *if the object is in thermodynamic equilibrium*. Anything in '' @
                 ''a spectrum from an object that is not like a black body curve means there is '' @
                 ''non-thermal emission. For optical observations this generally means spectral '' @
                 ''lines; for x-ray and $'' @ bslash #
                 ''gamma$-ray there are high-energy events like supernovae that are not '' @
                 ''thermalized; and for radio there are free-free radiation and synchrontron '' @
                 ''radiation that actually get more intense as frequency goes down! (This is the '' @
                 ''exact opposite of a black body.)\<newline>''),
        JString ''\<newline>'',
        JString ''\<newline>'',
        JString ''![](images/spectrums.jpg)''])]\<close>

definition protective_shopping :: json where
  \<open>protective_shopping = JObject [
      (''cell_type'', JString ''code''),
      (''execution_count'', JNull),
      (''id'', JString ''protective-shopping''),
      (''metadata'', JObject []),
      (''outputs'', JArray []),
      (''source'', JArray [
        JString ''# types of radation mechanisms\<newline>'',
        JString ''\<newline>'',
        JString ''# thermal blackbody and scattering\<newline>'',
        JString ''\<newline>'',
        JString ''# synchrontron and gyro radiation\<newline>'',
        JString ''\<newline>'',
        JString ''# free-free "braking" emission\<newline>'',
        JString ''\<newline>'',
        JString ''# molecular lines (masers)\<newline>'',
        JString ''\<newline>'',
        JString ''# atomic lines (lasers)\<newline>'',
        JString ''\<newline>'',
        JString ''# recombination radiation (HII regions)''])]\<close>

definition mysterious_booth :: json where
  \<open>mysterious_booth = JObject [
      (''cell_type'', JString ''markdown''),
      (''id'', JString ''mysterious-booth''),
      (''metadata'', JObject []),
      (''source'', JArray [
        JString (''at the higher level the [inverse square '' @
                 ''laws](https://en.wikipedia.org/wiki/Inverse-square_law) above are replaced with '' @
                 ''*fields* and take the form\<newline>''),
        JString ''\<newline>'',
        JString (''$$ '' @ bslash # ''mathbf{F_{G}} = m '' @ bslash # ''left( '' @ bslash #
                 ''mathbf{E_{G}} + '' @ bslash # ''mathbf{v} '' @ bslash # ''times '' @ bslash #
                 ''mathbf{B_{G}} '' @ bslash # ''right)'' @ bslash # '';'' @ bslash # ''; '' @ bslash #
                 ''& '' @ bslash # '';'' @ bslash # ''; '' @ bslash # ''mathbf{F_{EM}} = q '' @ bslash #
                 ''left( '' @ bslash # ''mathbf{E} + '' @ bslash # ''mathbf{v} '' @ bslash # ''times '' @
                 bslash # ''mathbf{B} '' @ bslash # ''right)$$\<newline>''),
        JString ''\<newline>'',
        JString (''where the electric field is $'' @ bslash # ''mathbf{E_i}$, magnetic field is $'' @
                 bslash # ''mathbf{B_i}$, and $'' @ bslash #
                 ''mathbf{E_{G}}$ is the gravitational field and $'' @ bslash #
                 ''mathbf{B_{G}}$ is the "gravitomagnetic" field; these can be compared to the '' @
                 ''more "fundamental" $'' @ bslash # ''mathbf{F} = m '' @ bslash #
                 ''mathbf{a}$. These laws are quite exact; in astrophysics, the level of exactness '' @
                 ''required can vary quite a bit depending on the precision of the observations, '' @
                 ''usually $'' @ bslash #
                 ''mathbf{B_{G}}$ can only be measured in the regions around extremly massive, '' @
                 ''compact objects like black holes and neutron stars, although it has been '' @
                 ''measured in the vicinity of the Earth. Both of the sets of fields are '' @
                 ''theoretically derived from the theory of relativity.\<newline>''),
        JString ''\<newline>'',
        JString (''For spectral lines, high precision is key to Doppler shifts, however, very '' @
                 ''often this requirement is relaxed and scaling relations are used instead to get '' @
                 ''a feeling for how things work. This "order of magnitude" thinking is a great '' @
                 ''skill to have in your back pocket in case you ever need to do a "back of the '' @
                 ''envelope" calculation. Instead of an equals sign or even an approximate sign '' @
                 ''the tilda or twiddle is used (if units are left out a proportionality sign '' @
                 ''should be used). In radio astronomy the Rayleigh-Jeans approximation is very '' @
                 ''useful\<newline>''),
        JString ''\<newline>'',
        JString (''compared to the more accurate Planck black body formula for objects in thermal '' @
                 ''equilibrium. \<newline>''),
        JString ''\<newline>'',
        JString (''FRB scaling relations, plasma scaling relations, magnetic field scaling '' @
                 ''relations, cosmological scaling relations, etc.'')])]\<close>

definition shared_priest :: json where
  \<open>shared_priest = JObject [
      (''cell_type'', JString ''markdown''),
      (''id'', JString ''shared-priest''),
      (''metadata'', JObject []),
      (''source'', JArray [
        JString ''Beta\<newline>'',
        JString ''Reynolds Number\<newline>'',
        JString ''Magnetic Reynolds Number\<newline>'',
        JString ''\<newline>'',
        JString ''FRB like intergalactic aurora''])]\<close>

definition ideal_holly :: json where
  \<open>ideal_holly = JObject [
      (''cell_type'', JString ''code''),
      (''execution_count'', JInt 1),
      (''id'', JString ''ideal-holly''),
      (''metadata'', JObject []),
      (''outputs'', JArray []),
      (''source'', JArray [
        JString ''#ariawazhere''])]\<close>

definition binary_colony :: json where
  \<open>binary_colony = JObject [
      (''cell_type'', JString ''markdown''),
      (''id'', JString ''binary-colony''),
      (''metadata'', JObject []),
      (''source'', JArray [
        JString ''## Plasma''])]\<close>

definition bfa91d73 :: json where
  \<open>bfa91d73 = JObject [
      (''cell_type'', JString ''code''),
      (''execution_count'', JInt 2),
      (''id'', JString ''bfa91d73''),
      (''metadata'', JObject []),
      (''outputs'', JArray []),
      (''source'', JArray [
        JString ''# basic plasma \<newline>'',
        JString ''\<newline>'',
        JString ''# plasma parameter space\<newline>'',
        JString ''\<newline>'',
        JString ''# Debye length (Debye-Huckle potential)\<newline>'',
        JString ''\<newline>'',
        JString ''# dispersion relations (types of waves)\<newline>'',
        JString ''Different plane waves have different propogation velocities\<newline>''])]\<close>

definition better_opinion :: json where
  \<open>better_opinion = JObject [
      (''cell_type'', JString ''markdown''),
      (''id'', JString ''better-opinion''),
      (''metadata'', JObject []),
      (''source'', JArray [
        JString ''Example of radio wave dispersion \<newline>'',
        JString ''\<newline>'',
        JString ''![pcloud](images/plasma-cloud-diagram.jpg)\<newline>'',
        JString ''\<newline>'',
        JString (''(image source: https://skyandtelescope.org/astronomy-news/twinkling-quasar-hints'' @
                 ''-at-mysterious-nearby-plasma-cloud/)'')])]\<close>

definition german_posting :: json where
  \<open>german_posting = JObject [
      (''cell_type'', JString ''markdown''),
      (''id'', JString ''german-posting''),
      (''metadata'', JObject []),
      (''source'', JArray [
        JString ''## Radio Astronomy''])]\<close>

definition instant_constitutional :: json where
  \<open>instant_constitutional = JObject [
      (''cell_type'', JString ''code''),
      (''execution_count'', JInt 1),
      (''id'', JString ''instant-constitutional''),
      (''metadata'', JObject []),
      (''outputs'', JArray []),
      (''source'', JArray [
        JString ''# single dish and interferometry (angular resolution)\<newline>'',
        JString ''\<newline>'',
        JString ''# fourier transforms for interferometry and spectrometry\<newline>'',
        JString ''\<newline>'',
        JString ''# FRB-specific telescopes and 21cm surveys''])]\<close>

definition forward_elite :: json where
  \<open>forward_elite = JObject [
      (''cell_type'', JString ''markdown''),
      (''id'', JString ''forward-elite''),
      (''metadata'', JObject []),
      (''source'', JArray [
        JString ''## Cosmology''])]\<close>

definition mighty_logistics :: json where
  \<open>mighty_logistics = JObject [
      (''cell_type'', JString ''code''),
      (''execution_count'', JNull),
      (''id'', JString ''mighty-logistics''),
      (''metadata'', JObject []),
      (''outputs'', JArray []),
      (''source'', JArray [
        JString ''# general relativity\<newline>'',
        JString ''\<newline>'',
        JString ''# dispersion relations\<newline>'',
        JString ''\<newline>'',
        JString ''# intergalactic medium''])]\<close>

definition notebook :: json where
  \<open>notebook = JObject [
    (''cells'', JArray [
      competent_timeline,
      composed_starter,
      democratic_liver,
      signed_minneapolis,
      protective_shopping,
      mysterious_booth,
      shared_priest,
      ideal_holly,
      binary_colony,
      bfa91d73,
      better_opinion,
      german_posting,
      instant_constitutional,
      forward_elite,
      mighty_logistics]),
    (''metadata'', JObject [
      (''kernelspec'', JObject [
        (''display_name'', JString ''Python 3''),
        (''language'', JString ''python''),
        (''name'', JString ''python3'')]),
      (''language_info'', JObject [
        (''codemirror_mode'', JObject [
          (''name'', JString ''ipython''),
          (''version'', JInt 3)]),
        (''file_extension'', JString ''.py''),
        (''mimetype'', JString ''text/x-python''),
        (''name'', JString ''python''),
        (''nbconvert_exporter'', JString ''python''),
        (''pygments_lexer'', JString ''ipython3''),
        (''version'', JString ''3.8.8'')])]),
    (''nbformat'', JInt 4),
    (''nbformat_minor'', JInt 5)]\<close>

subsection \<open>Reading the document\<close>

text \<open>
  A notebook reader looks fields up by key. \<open>source\<close> is the text of a cell: the format
  stores it as one string or as a list of strings to be joined.
\<close>

fun field :: "string \<Rightarrow> json \<Rightarrow> json option" where
  "field k (JObject kvs) = map_of kvs k"
| "field k _ = None"

fun text_of :: "json \<Rightarrow> string" where
  "text_of (JString s) = s"
| "text_of _ = []"

definition cells :: "json \<Rightarrow> json list" where
  "cells nb = (case field ''cells'' nb of Some (JArray cs) \<Rightarrow> cs | _ \<Rightarrow> [])"

definition cell_type :: "json \<Rightarrow> string" where
  "cell_type c = (case field ''cell_type'' c of Some (JString s) \<Rightarrow> s | _ \<Rightarrow> [])"

definition cell_id :: "json \<Rightarrow> string" where
  "cell_id c = (case field ''id'' c of Some (JString s) \<Rightarrow> s | _ \<Rightarrow> [])"

definition source :: "json \<Rightarrow> string" where
  "source c = (case field ''source'' c of
       Some (JArray ls) \<Rightarrow> concat (map text_of ls)
     | Some (JString s) \<Rightarrow> s
     | _ \<Rightarrow> [])"

definition outputs :: "json \<Rightarrow> json list" where
  "outputs c = (case field ''outputs'' c of Some (JArray os) \<Rightarrow> os | _ \<Rightarrow> [])"

definition code_cells :: "json \<Rightarrow> json list" where
  "code_cells nb = filter (\<lambda>c. cell_type c = ''code'') (cells nb)"

definition markdown_cells :: "json \<Rightarrow> json list" where
  "markdown_cells nb = filter (\<lambda>c. cell_type c = ''markdown'') (cells nb)"

text \<open>The lines of a text: a line ends at a line feed.\<close>

fun push_char :: "char \<Rightarrow> string list \<Rightarrow> string list" where
  "push_char c [] = [[c]]"
| "push_char c (l # ls) = (c # l) # ls"

fun split_lines :: "string \<Rightarrow> string list" where
  "split_lines [] = [[]]"
| "split_lines (CHR 0x0A # cs) = [] # split_lines cs"
| "split_lines (c # cs) = push_char c (split_lines cs)"

definition source_lines :: "json \<Rightarrow> string list" where
  "source_lines c = split_lines (source c)"

section \<open>The kernel that runs the code cells\<close>

text \<open>
  The notebook names its kernel: \<^verbatim>\<open>python3\<close>, an IPython kernel for Python 3.8. A code
  cell is sent to it as one text. The kernel first rewrites the lines that start with an
  IPython escape (\<^verbatim>\<open>%\<close> for a magic, \<^verbatim>\<open>!\<close> for a shell command), compiles the whole
  cell, and only then runs its statements in order.

  The model covers the fragment of Python the cells are written in: blank lines, comments,
  and the two import statements with an optional \<^verbatim>\<open>as\<close> clause. One rule of the
  grammar is used to reject a line: no statement starts with two adjacent names of which
  neither is a keyword. Every other line is reported as outside the fragment, so the model
  never calls valid Python invalid.
\<close>

subsection \<open>Tokens of a line\<close>

datatype token = NAME string | DOT | OP char

definition is_space :: "char \<Rightarrow> bool" where
  "is_space c = (c = CHR '' '' \<or> c = CHR 0x09 \<or> c = CHR 0x0C \<or> c = CHR 0x0D)"

definition is_name_start :: "char \<Rightarrow> bool" where
  "is_name_start c =
     (let n = (of_char c :: nat) in (97 \<le> n \<and> n \<le> 122) \<or> (65 \<le> n \<and> n \<le> 90) \<or> n = 95)"

definition is_name_char :: "char \<Rightarrow> bool" where
  "is_name_char c = (is_name_start c \<or> (let n = (of_char c :: nat) in 48 \<le> n \<and> n \<le> 57))"

definition emit :: "string \<Rightarrow> token list" where
  "emit acc = (if acc = [] then [] else [NAME acc])"

text \<open>
  \<open>tokens_from acc l\<close> reads the line \<open>l\<close> with the name \<open>acc\<close> in progress. A \<^verbatim>\<open>#\<close>
  ends the line: the rest is a comment.
\<close>

fun tokens_from :: "string \<Rightarrow> string \<Rightarrow> token list" where
  "tokens_from acc [] = emit acc"
| "tokens_from acc (c # cs) =
     (if c = CHR ''#'' then emit acc
      else if (acc = [] \<and> is_name_start c) \<or> (acc \<noteq> [] \<and> is_name_char c)
        then tokens_from (acc @ [c]) cs
      else emit acc @ (if is_space c then [] else if c = CHR ''.'' then [DOT] else [OP c])
             @ tokens_from [] cs)"

definition tokens :: "string \<Rightarrow> token list" where
  "tokens l = tokens_from [] l"

text \<open>The keywords of Python 3.8 (\<^verbatim>\<open>keyword.kwlist\<close>).\<close>

definition kwlist :: "string list" where
  "kwlist = [''False'', ''None'', ''True'', ''and'', ''as'', ''assert'', ''async'', ''await'',
     ''break'', ''class'', ''continue'', ''def'', ''del'', ''elif'', ''else'', ''except'',
     ''finally'', ''for'', ''from'', ''global'', ''if'', ''import'', ''in'', ''is'', ''lambda'',
     ''nonlocal'', ''not'', ''or'', ''pass'', ''raise'', ''return'', ''try'', ''while'',
     ''with'', ''yield'']"

definition iskeyword :: "string \<Rightarrow> bool" where
  "iskeyword s = (s \<in> set kwlist)"

subsection \<open>Statements of the fragment\<close>

datatype stmt =
    Import "string list" "string option"
  | ImportFrom "string list" string "string option"
  | LineMagic string
  | ShellEscape string

datatype parsed = Blank | Statement stmt | Invalid | Unsupported

fun dotted_name :: "token list \<Rightarrow> (string list \<times> token list) option" where
  "dotted_name (NAME a # DOT # ts) =
     (if iskeyword a then None
      else (case dotted_name ts of Some (p, r) \<Rightarrow> Some (a # p, r) | None \<Rightarrow> None))"
| "dotted_name (NAME a # ts) = (if iskeyword a then None else Some ([a], ts))"
| "dotted_name ts = None"

fun as_clause :: "token list \<Rightarrow> string option option" where
  "as_clause [] = Some None"
| "as_clause [NAME a, NAME x] =
     (if a = ''as'' \<and> \<not> iskeyword x then Some (Some x) else None)"
| "as_clause ts = None"

fun import_from_rest :: "string list \<Rightarrow> token list \<Rightarrow> parsed" where
  "import_from_rest m (NAME i # NAME n # r) =
     (if i = ''import'' \<and> \<not> iskeyword n
      then (case as_clause r of Some a \<Rightarrow> Statement (ImportFrom m n a) | None \<Rightarrow> Unsupported)
      else Unsupported)"
| "import_from_rest m ts = Unsupported"

fun parse_stmt :: "token list \<Rightarrow> parsed" where
  "parse_stmt [] = Blank"
| "parse_stmt (NAME k # rest) =
     (if k = ''import'' then
        (case dotted_name rest of
           Some (m, r) \<Rightarrow>
             (case as_clause r of Some a \<Rightarrow> Statement (Import m a) | None \<Rightarrow> Unsupported)
         | None \<Rightarrow> Unsupported)
      else if k = ''from'' then
        (case dotted_name rest of
           Some (m, r) \<Rightarrow> import_from_rest m r
         | None \<Rightarrow> Unsupported)
      else if iskeyword k then Unsupported
      else (case rest of
              NAME k' # ts \<Rightarrow> if iskeyword k' then Unsupported else Invalid
            | _ \<Rightarrow> Unsupported))"
| "parse_stmt ts = Unsupported"

text \<open>
  A line of a cell. The escapes are recognised before Python sees the line; a statement
  that does not start in the first column is left outside the fragment.
\<close>

definition parse_line :: "string \<Rightarrow> parsed" where
  "parse_line l =
     (case dropWhile is_space l of
        [] \<Rightarrow> Blank
      | c # rest \<Rightarrow>
          if c = CHR ''%'' then Statement (LineMagic rest)
          else if c = CHR ''!'' then Statement (ShellEscape rest)
          else if tokens l = [] then Blank
          else if is_space (hd l) then Unsupported
          else parse_stmt (tokens l))"

datatype pyerror =
    SyntaxError
  | ModuleNotFoundError "string list"
  | ImportError "string list" string

datatype outcome = Ok | Raised pyerror | OutsideFragment

text \<open>Compiling a cell: the first line that is not a statement decides.\<close>

fun parse_lines :: "string list \<Rightarrow> outcome + stmt list" where
  "parse_lines [] = Inr []"
| "parse_lines (l # ls) =
     (case parse_line l of
        Blank \<Rightarrow> parse_lines ls
      | Statement s \<Rightarrow> (case parse_lines ls of Inr ss \<Rightarrow> Inr (s # ss) | Inl e \<Rightarrow> Inl e)
      | Invalid \<Rightarrow> Inl (Raised SyntaxError)
      | Unsupported \<Rightarrow> Inl OutsideFragment)"

definition parse_cell :: "json \<Rightarrow> outcome + stmt list" where
  "parse_cell c = parse_lines (source_lines c)"

subsection \<open>Running statements\<close>

text \<open>
  What is installed where the kernel runs is not part of the repository: it is a
  parameter. \<open>has_module env p\<close> says that the module with dotted path \<open>p\<close> can be
  imported, \<open>has_attr env p n\<close> that it has an attribute \<open>n\<close>. An import runs the
  code of a module the first time the module is loaded; what that code does to the world
  outside the kernel is \<open>on_import env p\<close>.
\<close>

datatype effect = OpensFile | NetworkRequest | WritesOutput | Displays | StartsProcess

record env =
  has_module :: "string list \<Rightarrow> bool"
  has_attr :: "string list \<Rightarrow> string \<Rightarrow> bool"
  on_import :: "string list \<Rightarrow> effect list"

datatype pyvalue = Module "string list" | Attr "string list" string

text \<open>
  The state of the kernel: the names bound in the user namespace, the modules loaded so
  far (\<^verbatim>\<open>sys.modules\<close>), the effects of the code run so far, the magics and shell
  commands the kernel was asked to run, and the plotting backend chosen by the
  \<^verbatim>\<open>%matplotlib\<close> magic.
\<close>

record kernel =
  globals :: "string \<rightharpoonup> pyvalue"
  loaded :: "string list list"
  effects :: "effect list"
  magics_run :: "string list"
  shell_run :: "string list"
  backend :: "string option"

definition packages :: "string list \<Rightarrow> string list list" where
  "packages m = map (\<lambda>n. take n m) [1..<Suc (length m)]"

definition run_module :: "env \<Rightarrow> string list \<Rightarrow> kernel \<Rightarrow> kernel" where
  "run_module e p k = k\<lparr>loaded := loaded k @ [p], effects := effects k @ on_import e p\<rparr>"

text \<open>
  Loading modules in order. A module that is loaded already is not run again; the first
  one that cannot be imported ends the loading, after the code of the ones before it has
  run.
\<close>

fun load_modules :: "env \<Rightarrow> kernel \<Rightarrow> string list list \<Rightarrow> string list option \<times> kernel" where
  "load_modules e k [] = (None, k)"
| "load_modules e k (p # ps) =
     (if p \<in> set (loaded k) then load_modules e k ps
      else if has_module e p then load_modules e (run_module e p k) ps
      else (Some p, k))"

definition bind :: "string \<Rightarrow> pyvalue \<Rightarrow> kernel \<Rightarrow> kernel" where
  "bind x v k = k\<lparr>globals := (globals k)(x \<mapsto> v)\<rparr>"

definition select_backend :: "string \<Rightarrow> kernel \<Rightarrow> kernel" where
  "select_backend s k =
     (if take 11 s = ''matplotlib '' then k\<lparr>backend := Some (drop 11 s)\<rparr> else k)"

fun exec_stmt :: "env \<Rightarrow> kernel \<Rightarrow> stmt \<Rightarrow> outcome \<times> kernel" where
  "exec_stmt e k (Import m a) =
     (case load_modules e k (packages m) of
        (Some p, k') \<Rightarrow> (Raised (ModuleNotFoundError p), k')
      | (None, k') \<Rightarrow>
          (case a of
             Some x \<Rightarrow> (Ok, bind x (Module m) k')
           | None \<Rightarrow> (Ok, bind (hd m) (Module [hd m]) k')))"
| "exec_stmt e k (ImportFrom m n a) =
     (case load_modules e k (packages m) of
        (Some p, k') \<Rightarrow> (Raised (ModuleNotFoundError p), k')
      | (None, k') \<Rightarrow>
          if has_attr e m n
          then (Ok, bind (case a of Some x \<Rightarrow> x | None \<Rightarrow> n) (Attr m n) k')
          else (case load_modules e k' [m @ [n]] of
                  (Some p, k'') \<Rightarrow> (Raised (ImportError m n), k'')
                | (None, k'') \<Rightarrow>
                    (Ok, bind (case a of Some x \<Rightarrow> x | None \<Rightarrow> n) (Module (m @ [n])) k'')))"
| "exec_stmt e k (LineMagic s) =
     (Ok, select_backend s (k\<lparr>magics_run := magics_run k @ [s]\<rparr>))"
| "exec_stmt e k (ShellEscape s) = (Ok, k\<lparr>shell_run := shell_run k @ [s]\<rparr>)"

fun run_stmts :: "env \<Rightarrow> kernel \<Rightarrow> stmt list \<Rightarrow> outcome \<times> kernel" where
  "run_stmts e k [] = (Ok, k)"
| "run_stmts e k (s # ss) =
     (case exec_stmt e k s of
        (Ok, k') \<Rightarrow> run_stmts e k' ss
      | (r, k') \<Rightarrow> (r, k'))"

definition run_cell :: "env \<Rightarrow> kernel \<Rightarrow> json \<Rightarrow> outcome \<times> kernel" where
  "run_cell e k c =
     (case parse_cell c of
        Inl r \<Rightarrow> (r, k)
      | Inr ss \<Rightarrow> run_stmts e k ss)"

text \<open>
  Running the cells in order. With \<open>stop\<close> the run ends at the first cell that fails (what
  ``Run All'' does); without it every cell is run.
\<close>

fun run_cells :: "bool \<Rightarrow> env \<Rightarrow> kernel \<Rightarrow> json list \<Rightarrow> outcome list \<times> kernel" where
  "run_cells stop e k [] = ([], k)"
| "run_cells stop e k (c # cs) =
     (case run_cell e k c of
        (r, k') \<Rightarrow>
          if stop \<and> r \<noteq> Ok then ([r], k')
          else (case run_cells stop e k' cs of (rs, k'') \<Rightarrow> (r # rs, k'')))"

definition run_notebook :: "bool \<Rightarrow> env \<Rightarrow> kernel \<Rightarrow> json \<Rightarrow> outcome list \<times> kernel" where
  "run_notebook stop e k nb = run_cells stop e k (code_cells nb)"

text \<open>
  A kernel where every import succeeds and no module does anything when it is loaded; one
  where every import succeeds and every module writes a line of output when it is loaded;
  and a kernel that has run nothing yet.
\<close>

definition all_installed :: env where
  "all_installed =
     \<lparr>has_module = (\<lambda>p. True), has_attr = (\<lambda>p n. True), on_import = (\<lambda>p. [])\<rparr>"

definition noisy :: env where
  "noisy =
     \<lparr>has_module = (\<lambda>p. True), has_attr = (\<lambda>p n. True), on_import = (\<lambda>p. [WritesOutput])\<rparr>"

definition fresh :: kernel where
  "fresh =
     \<lparr>globals = Map.empty, loaded = [], effects = [], magics_run = [], shell_run = [],
      backend = None\<rparr>"

section \<open>What the cells contain\<close>

subsection \<open>Kinds of lines in a code cell\<close>

datatype line_kind = BlankLine | CommentLine | ImportLine | OtherLine

fun is_import_stmt :: "stmt \<Rightarrow> bool" where
  "is_import_stmt (Import m a) = True"
| "is_import_stmt (ImportFrom m n a) = True"
| "is_import_stmt s = False"

fun is_import :: "parsed \<Rightarrow> bool" where
  "is_import (Statement s) = is_import_stmt s"
| "is_import p = False"

definition line_kind :: "string \<Rightarrow> line_kind" where
  "line_kind l =
     (case dropWhile is_space l of
        [] \<Rightarrow> BlankLine
      | c # cs \<Rightarrow>
          if c = CHR ''#'' then CommentLine
          else if is_import (parse_line l) then ImportLine
          else OtherLine)"

text \<open>The lines of a cell that are neither blank, nor a comment, nor an import, numbered from 1.\<close>

definition other_lines :: "json \<Rightarrow> (string \<times> nat \<times> string) list" where
  "other_lines c =
     map (\<lambda>(n, l). (cell_id c, n, l))
       (filter (\<lambda>(n, l). line_kind l = OtherLine) (enumerate 1 (source_lines c)))"

subsection \<open>Names bound and names used\<close>

fun bound_name :: "stmt \<Rightarrow> string list" where
  "bound_name (Import m (Some x)) = [x]"
| "bound_name (Import m None) = [hd m]"
| "bound_name (ImportFrom m n (Some x)) = [x]"
| "bound_name (ImportFrom m n None) = [n]"
| "bound_name s = []"

definition bound_names :: "stmt list \<Rightarrow> string list" where
  "bound_names ss = concat (map bound_name ss)"

text \<open>
  The modules an import statement loads, in order, and the values it can bind its name
  to: \<^verbatim>\<open>from m import n\<close> binds the attribute \<open>n\<close> of \<open>m\<close>, or else the submodule.
\<close>

fun modules_of :: "stmt \<Rightarrow> string list list" where
  "modules_of (Import m a) = packages m"
| "modules_of (ImportFrom m n a) = packages m @ [m @ [n]]"
| "modules_of s = []"

fun import_values :: "stmt \<Rightarrow> pyvalue list" where
  "import_values (Import m (Some x)) = [Module m]"
| "import_values (Import m None) = [Module [hd m]]"
| "import_values (ImportFrom m n a) = [Attr m n, Module (m @ [n])]"
| "import_values s = []"

fun statement_of :: "parsed \<Rightarrow> stmt list" where
  "statement_of (Statement s) = [s]"
| "statement_of p = []"

text \<open>
  Only a code cell holds Python: a markdown cell is rendered, never sent to the kernel, so
  it has no import and uses no name.
\<close>

definition import_stmts :: "json \<Rightarrow> stmt list" where
  "import_stmts c =
     (if cell_type c = ''code''
      then concat (map (\<lambda>l. if is_import (parse_line l) then statement_of (parse_line l) else [])
             (source_lines c))
      else [])"

definition has_imports :: "json \<Rightarrow> bool" where
  "has_imports c = (import_stmts c \<noteq> [])"

fun name_of :: "token \<Rightarrow> string list" where
  "name_of (NAME s) = [s]"
| "name_of t = []"

definition names_used :: "json \<Rightarrow> string list" where
  "names_used c =
     (if cell_type c = ''code''
      then concat (map (\<lambda>l. concat (map name_of (tokens l))) (source_lines c))
      else [])"

subsection \<open>Definitions and calls\<close>

text \<open>
  A function, a class or a named value is introduced by \<^verbatim>\<open>def\<close>, \<^verbatim>\<open>class\<close>,
  \<^verbatim>\<open>lambda\<close> or an assignment; a call is written with an opening parenthesis.
\<close>

definition defining_tokens :: "token list" where
  "defining_tokens = [NAME ''def'', NAME ''class'', NAME ''lambda'', OP CHR ''='']"

definition defining_lines :: "json \<Rightarrow> string list" where
  "defining_lines c =
     filter (\<lambda>l. list_ex (\<lambda>t. t \<in> set defining_tokens) (tokens l)) (source_lines c)"

definition calling_lines :: "json \<Rightarrow> string list" where
  "calling_lines c = filter (\<lambda>l. OP CHR ''('' \<in> set (tokens l)) (source_lines c)"

subsection \<open>Images of the markdown cells\<close>

text \<open>
  Markdown embeds an image as \<^verbatim>\<open>![alt](target)\<close>. The scanner returns the targets
  in the order of the text. An HTML tag, the other way to embed one, starts with \<^verbatim>\<open><\<close>.
\<close>

datatype md_state = MdText | MdBang | MdAlt | MdAltEnd | MdTarget string

fun md_next :: "md_state \<Rightarrow> char \<Rightarrow> md_state" where
  "md_next MdText c = (if c = CHR ''!'' then MdBang else MdText)"
| "md_next MdBang c = (if c = CHR ''['' then MdAlt else if c = CHR ''!'' then MdBang else MdText)"
| "md_next MdAlt c = (if c = CHR '']'' then MdAltEnd else MdAlt)"
| "md_next MdAltEnd c =
     (if c = CHR ''('' then MdTarget [] else if c = CHR ''!'' then MdBang else MdText)"
| "md_next (MdTarget u) c = (if c = CHR '')'' then MdText else MdTarget (u @ [c]))"

fun md_emit :: "md_state \<Rightarrow> char \<Rightarrow> string list" where
  "md_emit (MdTarget u) c = (if c = CHR '')'' then [u] else [])"
| "md_emit s c = []"

fun md_images :: "md_state \<Rightarrow> string \<Rightarrow> string list" where
  "md_images s [] = []"
| "md_images s (c # cs) = md_emit s c @ md_images (md_next s c) cs"

definition images :: "json \<Rightarrow> string list" where
  "images c = md_images MdText (source c)"

fun html_tag_opens :: "string \<Rightarrow> nat" where
  "html_tag_opens [] = 0"
| "html_tag_opens (CHR ''<'' # cs) = Suc (html_tag_opens cs)"
| "html_tag_opens (c # cs) = html_tag_opens cs"

text \<open>
  A target is relative when it has no scheme or drive (no colon) and does not start at a
  root; it lies under \<^verbatim>\<open>images/\<close> when it starts there and never steps up.
\<close>

definition is_relative :: "string \<Rightarrow> bool" where
  "is_relative p = (p \<noteq> [] \<and> CHR '':'' \<notin> set p \<and> hd p \<noteq> CHR ''/'' \<and> hd p \<noteq> bslash)"

fun steps_up :: "string \<Rightarrow> bool" where
  "steps_up (c # d # cs) = ((c = CHR ''.'' \<and> d = CHR ''.'') \<or> steps_up (d # cs))"
| "steps_up cs = False"

definition under_images :: "string \<Rightarrow> bool" where
  "under_images p = (take 7 p = ''images/'' \<and> \<not> steps_up p)"

section \<open>The file as text\<close>

text \<open>
  The bytes of \<^verbatim>\<open>ULAB_FRBs.ipynb\<close>, line by line: each string is a line of the
  file without its line feed. The file does not end with a line feed.
\<close>

definition ipynb :: "string list" where
  \<open>ipynb = [
    ''{'',
    '' "cells": ['',
    ''  {'',
    ''   "cell_type": "markdown",'',
    ''   "id": "competent-timeline",'',
    ''   "metadata": {},'',
    ''   "source": ['',
    ''    "## ULAB FRBs'' @ bslash # ''n",'',
    ''    "#### Kyle Miller"'',
    ''   ]'',
    ''  },'',
    ''  {'',
    ''   "cell_type": "code",'',
    ''   "execution_count": 1,'',
    ''   "id": "composed-starter",'',
    ''   "metadata": {},'',
    ''   "outputs": [],'',
    ''   "source": ['',
    ''    "# these are useful packages to import for astronomy (typical syntax)'' @ bslash #
      ''n",'',
    ''    "import astropy.units as u'' @ bslash # ''n",'',
    ''    "import astropy.constants as c'' @ bslash # ''n",'',
    ''    "'' @ bslash # ''n",'',
    ''    "# these are typical packages used in jupyter notebooks'' @ bslash # ''n",'',
    ''    "import numpy as np'' @ bslash # ''n",'',
    ''    "import matplotlib.pyplot as plt'' @ bslash # ''n",'',
    ''    "from tqdm import tqdm'' @ bslash # ''n",'',
    ''    "'' @ bslash # ''n",'',
    ''    "# these are useful packages for science/engineering in general'' @ bslash #
      ''n",'',
    ''    "from scipy import signal'' @ bslash # ''n",'',
    ''    "from scipy import integrate'' @ bslash # ''n",'',
    ''    "from scipy import fftpack'' @ bslash # ''n",'',
    ''    "from scipy import optimize'' @ bslash # ''n",'',
    ''    "from scipy import ndimage'' @ bslash # ''n",'',
    ''    " '' @ bslash # ''n",'',
    ''    "# this is the package for plasma-related physics (it uses astropy)'' @ bslash #
      ''n",'',
    ''    "from plasmapy import dispersion'' @ bslash # ''n",'',
    ''    "from plasmapy import formulary'' @ bslash # ''n",'',
    ''    "from plasmapy import simulation'' @ bslash # ''n",'',
    ''    "'' @ bslash # ''n",'',
    ''    "# to get interactive plots uncomment the '' @ bslash # ''"magic'' @ bslash #
      ''" line below'' @ bslash # ''n",'',
    ''    "# %matplotlib notebook"'',
    ''   ]'',
    ''  },'',
    ''  {'',
    ''   "cell_type": "markdown",'',
    ''   "id": "democratic-liver",'',
    ''   "metadata": {},'',
    ''   "source": ['',
    ''    "### Astronomy: gravitation and electromagnetism'' @ bslash # ''n",'',
    ''    "'' @ bslash # ''n",'',
    ''    "In this quick introduction to astronomical research it would be good to '' @
      ''cover the basic physics before moving into the particulars of radio astronomy '' @
      ''and fast radio bursts (FRBs). Often in physics the universe is portrayed as a '' @
      ''soup of quantum particles that do strange quantum things and somehow build up '' @
      ''into what is observed in nature. This is typically called *reductionism* in the '' @
      ''philosophical parlance. However, there are alternative views like *emergence* '' @
      ''where lots of smaller things can become other bigger things with there own '' @
      ''behaviors and laws. In classical physics the '' @ bslash # ''"three-body problem'' @
      bslash #
      ''" makes analytical (pen and paper) solutions mostly impossible for any system '' @
      ''with 3+ bodies, like the Sun, Earth and moon. Whereas in quantum mechanics and '' @
      ''relativity calculating systems with more than 2 particles results in a similar '' @
      ''impasse. Usually the way around this is going to numerical solutions and '' @
      ''methods, which basically means using the computer to do the calculations!'' @ bslash #
      ''n",'',
    ''    "'' @ bslash # ''n",'',
    ''    "For astronomers'' @ emdash @
      ''with the exception for stellar fusion, quantum line emissions, and a few '' @
      ''high-energy processes like the big bang'' @ emdash @
      ''the majority of the physics is gravitation and electromagnetism (plus the '' @
      ''majority of the *quantized* emission spectra, like the rotational and '' @
      ''vibrational transisitions of radio astronomy, is typically found experimentally '' @
      ''not theoretically, with the major exception being 21cm neutral hydrogen '' @
      ''spin-flip transition, which you will encounter if you take quantum physics!). '' @
      ''These two areas of physics have a lot in common, e.g., in CGS units astronomers '' @
      ''tend to use'' @ bslash # ''n",'',
    ''    "'' @ bslash # ''n",'',
    ''    "$$ F_{G} = '' @ bslash # bslash # ''frac{G m_1 m_2}{r^2} '' @ bslash # bslash #
      '';'' @ bslash # bslash # ''; '' @ bslash # bslash # ''& '' @ bslash # bslash # '';'' @
      bslash # bslash # ''; F_{EM} = '' @ bslash # bslash # ''frac{q_1 q_2}{r^2}, $$'' @
      bslash # ''n",'',
    ''    "'' @ bslash # ''n",'',
    ''    "where the '' @ bslash # ''"charge'' @ bslash #
      ''" ($q_i$ for electromagnetism) of gravity is typically mass, $m_i$, but could '' @
      ''be energy $E = '' @ bslash # bslash #
      ''gamma m c^2$, and $r$ is the radial distance between the charges; although they '' @
      ''are typically compared by strength: the ratio of the gravitational to '' @
      ''electromagnetic force **for particles** is on the order of $'' @ bslash # bslash #
      ''sim 10^{42}$, with gravity being the lesser. For astronomical bodies, however, '' @
      ''gravitation is often playing the larger role. Magnetic fields, which are harder '' @
      ''to observe than massive (hot) things, are often neglected (especially in '' @
      ''undergraduate classes). Radio astronomy is probably the best tool for '' @
      ''visualizing magnetic fields outside of the solar system for a variety of reasons'' @
      emdash @
      ''but mostly because of the way electromagnetic (radio) waves propagate through '' @
      ''regions with magnetic fields (spectral line splitting, i.e., the Zeeman effect, '' @
      ''and a few other techniques like polarization can be used in certain cases at '' @
      ''other wavebands).'' @ bslash # ''n",'',
    ''    "'' @ bslash # ''n",'',
    ''    "If you have completed the $5/7$ series or equivalent you probably have '' @
      ''seen Maxwell's equations. These come up in an area of astronomy called '' @
      ''magnetohydrodynamics where they are combined with the equations of fluids, '' @
      ''which typically includes gravity, to produce a system of equations that can be '' @
      ''used to model plasma and other astrophysical objects like accretion disks. This '' @
      ''is a very involved field'' @ emdash @
      ''but is much easier than trying to solve Schrodinger's equation for zillions of '' @
      ''particles'' @ emdash @
      ''so the important results and tools like dispersion relations will be covered '' @
      ''below without any derivations, just hand wavy arguments and pictures '' @
      ''(observational astronomers, like Faraday, typically think about magnetic fields '' @
      ''as *lines of force* anyways). The prototypical image of dispersion is the prism '' @
      ''and there is also an image of magnetic field lines in radio-loud galaxy '' @
      ''Centarus A'' @ bslash # ''n",'',
    ''    "'' @ bslash # ''n",'',
    ''    "![prism](images/prism.jpeg)'' @ bslash # ''n",'',
    ''    "'' @ bslash # ''n",'',
    ''    "![cenA](images/cenA.png)"'',
    ''   ]'',
    ''  },'',
    ''  {'',
    ''   "cell_type": "markdown",'',
    ''   "id": "signed-minneapolis",'',
    ''   "metadata": {},'',
    ''   "source": ['',
    ''    "(images from: https://www.cyberphysics.co.uk/topics/light/dispersion.htm '' @
      ''and https://www.sofia.usra.edu/publications/science-results-archive/warped-magne'' @
      ''tic-field-centaurus). Of course, radio waves are not as colorful altough they '' @
      ''can make sounds! Thunderstorms are very bright sources of radio waves and '' @
      ''actually power a resonance in the Earth's atmosphere that pulsates at around '' @
      ''$7$ Hz; the FRBs are much more energetic and are typically oscillating around '' @
      ''$1$ GHz (for comparison, Wi-Fi and microwave ovens operate around $2.4/5$ GHz).'' @
      bslash # ''n",'',
    ''    "'' @ bslash # ''n",'',
    ''    "'' @ bslash # ''n",'',
    ''    "The most important physics for FRBs and radio astronomy, at the basic '' @
      ''level, will be the concepts of luminosity and flux density. Luminosity, $L$, is '' @
      ''basically a pseudonym for power or $E/t$ (energy/time). For a black body (an '' @
      ''object in thermal equilibrium, i.e., roughly the same temperature as its '' @
      ''surroundings) the luminosity is given by the Steffan-Boltzmann equation'' @ bslash #
      ''n",'',
    ''    "'' @ bslash # ''n",'',
    ''    "$$ L = 4'' @ bslash # bslash # ''pi r_*^2 '' @ bslash # bslash #
      ''sigma T^4$$'' @ bslash # ''n",'',
    ''    "'' @ bslash # ''n",'',
    ''    "where $r_*$ is the radius of the object, $'' @ bslash # bslash #
      ''sigma$ is the Steffan-Boltzmann constant, and $T$ is the temperature of the '' @
      ''object. The flux density then is is defined as '' @ bslash # ''n",'',
    ''    "'' @ bslash # ''n",'',
    ''    "$$ F = '' @ bslash # bslash # ''frac{L}{4'' @ bslash # bslash #
      ''pi r_{path}^2 } $$'' @ bslash # ''n",'',
    ''    "'' @ bslash # ''n",'',
    ''    "which is essentailly luminosity/surface area with $r_{path}$ being the '' @
      ''path of a given ray being emitted from the luminous object (usually assumed to '' @
      ''be a black body). Stars, for example, are not perfect black bodies, but they '' @
      ''are close enough that there '' @ bslash # ''"surface'' @ bslash #
      ''" temperature (the photosphere) is used as an '' @ bslash # ''"effective'' @ bslash #
      ''" temperature ($T_'' @ bslash # bslash # ''odot '' @ bslash # bslash #
      ''approx 5777 $) for the equation above and the results are in generally good '' @
      ''agreement with observations. The following image shows the difference between a '' @
      ''perfect blackbody and the Sun's actualy spectrum.'' @ bslash # ''n",'',
    ''    "'' @ bslash # ''n",'',
    ''    "![](images/sun_spectrum.png)'' @ bslash # ''n",'',
    ''    "'' @ bslash # ''n",'',
    ''    "Image source: [https://physics.stackexchange.com/questions/130209/how-can-i'' @
      ''t-be-that-the-sun-emits-more-than-a-black-body](https://physics.stackexchange.co'' @
      ''m/questions/130209/how-can-it-be-that-the-sun-emits-more-than-a-black-body).'' @
      bslash # ''n",'',
    ''    "'' @ bslash # ''n",'',
    ''    "The Steffan-Boltzman law above comes from integrating the Planck black '' @
      ''body formula'' @ bslash # ''n",'',
    ''    "'' @ bslash # ''n",'',
    ''    "$$ B('' @ bslash # bslash # ''nu, T) = '' @ bslash # bslash # ''frac{2 h '' @
      bslash # bslash # ''nu^3 }{c^2} '' @ bslash # bslash # ''frac{1}{e^{h '' @ bslash #
      bslash # ''nu / k_B T} - 1 } $$'' @ bslash # ''n",'',
    ''    "'' @ bslash # ''n",'',
    ''    "over all frequencies, $'' @ bslash # bslash #
      ''nu$. $h$ is Planck's constant, $k_B$ is Boltzmann's constant, and $c$ is the '' @
      ''speed of light. For radio astronomy, at relatively low frequencies, this '' @
      ''formula can be simplified with a Taylor series approximation for the '' @
      ''exponential. This is known as the Rayleigh-Jeans limit. When $h'' @ bslash # bslash #
      ''nu '' @ bslash # bslash # ''ll k_B T$ the exponential can be approximated as'' @
      bslash # ''n",'',
    ''    "'' @ bslash # ''n",'',
    ''    "$$ e^{h '' @ bslash # bslash # ''nu / k_B T} '' @ bslash # bslash #
      ''approx 1 + '' @ bslash # bslash # ''frac{h '' @ bslash # bslash # ''nu}{k_B T}$$'' @
      bslash # ''n",'',
    ''    "'' @ bslash # ''n",'',
    ''    "and then the two ones cancel out yielding the following (approximate) '' @
      ''formula'' @ bslash # ''n",'',
    ''    "'' @ bslash # ''n",'',
    ''    "$$ B('' @ bslash # bslash # ''nu, T) = '' @ bslash # bslash # ''frac{2 h '' @
      bslash # bslash # ''nu^2 k_B T_B }{c^2} $$'' @ bslash # ''n",'',
    ''    "'' @ bslash # ''n",'',
    ''    "where the temperature is known as the '' @ bslash # ''"brightness temperature'' @
      bslash #
      ''" $T_B$. This allows radio astronomers to get an approximate temperature for '' @
      ''objects based on the flux recived, *if the object is in thermodynamic '' @
      ''equilibrium*. Anything in a spectrum from an object that is not like a black '' @
      ''body curve means there is non-thermal emission. For optical observations this '' @
      ''generally means spectral lines; for x-ray and $'' @ bslash # bslash #
      ''gamma$-ray there are high-energy events like supernovae that are not '' @
      ''thermalized; and for radio there are free-free radiation and synchrontron '' @
      ''radiation that actually get more intense as frequency goes down! (This is the '' @
      ''exact opposite of a black body.)'' @ bslash # ''n",'',
    ''    "'' @ bslash # ''n",'',
    ''    "'' @ bslash # ''n",'',
    ''    "![](images/spectrums.jpg)"'',
    ''   ]'',
    ''  },'',
    ''  {'',
    ''   "cell_type": "code",'',
    ''   "execution_count": null,'',
    ''   "id": "protective-shopping",'',
    ''   "metadata": {},'',
    ''   "outputs": [],'',
    ''   "source": ['',
    ''    "# types of radation mechanisms'' @ bslash # ''n",'',
    ''    "'' @ bslash # ''n",'',
    ''    "# thermal blackbody and scattering'' @ bslash # ''n",'',
    ''    "'' @ bslash # ''n",'',
    ''    "# synchrontron and gyro radiation'' @ bslash # ''n",'',
    ''    "'' @ bslash # ''n",'',
    ''    "# free-free '' @ bslash # ''"braking'' @ bslash # ''" emission'' @ bslash #
      ''n",'',
    ''    "'' @ bslash # ''n",'',
    ''    "# molecular lines (masers)'' @ bslash # ''n",'',
    ''    "'' @ bslash # ''n",'',
    ''    "# atomic lines (lasers)'' @ bslash # ''n",'',
    ''    "'' @ bslash # ''n",'',
    ''    "# recombination radiation (HII regions)"'',
    ''   ]'',
    ''  },'',
    ''  {'',
    ''   "cell_type": "markdown",'',
    ''   "id": "mysterious-booth",'',
    ''   "metadata": {},'',
    ''   "source": ['',
    ''    "at the higher level the [inverse square '' @
      ''laws](https://en.wikipedia.org/wiki/Inverse-square_law) above are replaced with '' @
      ''*fields* and take the form'' @ bslash # ''n",'',
    ''    "'' @ bslash # ''n",'',
    ''    "$$ '' @ bslash # bslash # ''mathbf{F_{G}} = m '' @ bslash # bslash # ''left( '' @
      bslash # bslash # ''mathbf{E_{G}} + '' @ bslash # bslash # ''mathbf{v} '' @ bslash #
      bslash # ''times '' @ bslash # bslash # ''mathbf{B_{G}} '' @ bslash # bslash #
      ''right)'' @ bslash # bslash # '';'' @ bslash # bslash # ''; '' @ bslash # bslash #
      ''& '' @ bslash # bslash # '';'' @ bslash # bslash # ''; '' @ bslash # bslash #
      ''mathbf{F_{EM}} = q '' @ bslash # bslash # ''left( '' @ bslash # bslash #
      ''mathbf{E} + '' @ bslash # bslash # ''mathbf{v} '' @ bslash # bslash # ''times '' @
      bslash # bslash # ''mathbf{B} '' @ bslash # bslash # ''right)$$'' @ bslash # ''n",'',
    ''    "'' @ bslash # ''n",'',
    ''    "where the electric field is $'' @ bslash # bslash #
      ''mathbf{E_i}$, magnetic field is $'' @ bslash # bslash # ''mathbf{B_i}$, and $'' @
      bslash # bslash # ''mathbf{E_{G}}$ is the gravitational field and $'' @ bslash #
      bslash # ''mathbf{B_{G}}$ is the '' @ bslash # ''"gravitomagnetic'' @ bslash #
      ''" field; these can be compared to the more '' @ bslash # ''"fundamental'' @ bslash #
      ''" $'' @ bslash # bslash # ''mathbf{F} = m '' @ bslash # bslash #
      ''mathbf{a}$. These laws are quite exact; in astrophysics, the level of exactness '' @
      ''required can vary quite a bit depending on the precision of the observations, '' @
      ''usually $'' @ bslash # bslash #
      ''mathbf{B_{G}}$ can only be measured in the regions around extremly massive, '' @
      ''compact objects like black holes and neutron stars, although it has been '' @
      ''measured in the vicinity of the Earth. Both of the sets of fields are '' @
      ''theoretically derived from the theory of relativity.'' @ bslash # ''n",'',
    ''    "'' @ bslash # ''n",'',
    ''    "For spectral lines, high precision is key to Doppler shifts, however, very '' @
      ''often this requirement is relaxed and scaling relations are used instead to get '' @
      ''a feeling for how things work. This '' @ bslash # ''"order of magnitude'' @ bslash #
      ''" thinking is a great skill to have in your back pocket in case you ever need '' @
      ''to do a '' @ bslash # ''"back of the envelope'' @ bslash #
      ''" calculation. Instead of an equals sign or even an approximate sign the tilda '' @
      ''or twiddle is used (if units are left out a proportionality sign should be '' @
      ''used). In radio astronomy the Rayleigh-Jeans approximation is very useful'' @ bslash #
      ''n",'',
    ''    "'' @ bslash # ''n",'',
    ''    "compared to the more accurate Planck black body formula for objects in '' @
      ''thermal equilibrium. '' @ bslash # ''n",'',
    ''    "'' @ bslash # ''n",'',
    ''    "FRB scaling relations, plasma scaling relations, magnetic field scaling '' @
      ''relations, cosmological scaling relations, etc."'',
    ''   ]'',
    ''  },'',
    ''  {'',
    ''   "cell_type": "markdown",'',
    ''   "id": "shared-priest",'',
    ''   "metadata": {},'',
    ''   "source": ['',
    ''    "Beta'' @ bslash # ''n",'',
    ''    "Reynolds Number'' @ bslash # ''n",'',
    ''    "Magnetic Reynolds Number'' @ bslash # ''n",'',
    ''    "'' @ bslash # ''n",'',
    ''    "FRB like intergalactic aurora"'',
    ''   ]'',
    ''  },'',
    ''  {'',
    ''   "cell_type": "code",'',
    ''   "execution_count": 1,'',
    ''   "id": "ideal-holly",'',
    ''   "metadata": {},'',
    ''   "outputs": [],'',
    ''   "source": ['',
    ''    "#ariawazhere"'',
    ''   ]'',
    ''  },'',
    ''  {'',
    ''   "cell_type": "markdown",'',
    ''   "id": "binary-colony",'',
    ''   "metadata": {},'',
    ''   "source": ['',
    ''    "## Plasma"'',
    ''   ]'',
    ''  },'',
    ''  {'',
    ''   "cell_type": "code",'',
    ''   "execution_count": 2,'',
    ''   "id": "bfa91d73",'',
    ''   "metadata": {},'',
    ''   "outputs": [],'',
    ''   "source": ['',
    ''    "# basic plasma '' @ bslash # ''n",'',
    ''    "'' @ bslash # ''n",'',
    ''    "# plasma parameter space'' @ bslash # ''n",'',
    ''    "'' @ bslash # ''n",'',
    ''    "# Debye length (Debye-Huckle potential)'' @ bslash # ''n",'',
    ''    "'' @ bslash # ''n",'',
    ''    "# dispersion relations (types of waves)'' @ bslash # ''n",'',
    ''    "Different plane waves have different propogation velocities'' @ bslash # ''n"'',
    ''   ]'',
    ''  },'',
    ''  {'',
    ''   "cell_type": "markdown",'',
    ''   "id": "better-opinion",'',
    ''   "metadata": {},'',
    ''   "source": ['',
    ''    "Example of radio wave dispersion '' @ bslash # ''n",'',
    ''    "'' @ bslash # ''n",'',
    ''    "![pcloud](images/plasma-cloud-diagram.jpg)'' @ bslash # ''n",'',
    ''    "'' @ bslash # ''n",'',
    ''    "(image source: https://skyandtelescope.org/astronomy-news/twinkling-quasar-'' @
      ''hints-at-mysterious-nearby-plasma-cloud/)"'',
    ''   ]'',
    ''  },'',
    ''  {'',
    ''   "cell_type": "markdown",'',
    ''   "id": "german-posting",'',
    ''   "metadata": {},'',
    ''   "source": ['',
    ''    "## Radio Astronomy"'',
    ''   ]'',
    ''  },'',
    ''  {'',
    ''   "cell_type": "code",'',
    ''   "execution_count": 1,'',
    ''   "id": "instant-constitutional",'',
    ''   "metadata": {},'',
    ''   "outputs": [],'',
    ''   "source": ['',
    ''    "# single dish and interferometry (angular resolution)'' @ bslash # ''n",'',
    ''    "'' @ bslash # ''n",'',
    ''    "# fourier transforms for interferometry and spectrometry'' @ bslash # ''n",'',
    ''    "'' @ bslash # ''n",'',
    ''    "# FRB-specific telescopes and 21cm surveys"'',
    ''   ]'',
    ''  },'',
    ''  {'',
    ''   "cell_type": "markdown",'',
    ''   "id": "forward-elite",'',
    ''   "metadata": {},'',
    ''   "source": ['',
    ''    "## Cosmology"'',
    ''   ]'',
    ''  },'',
    ''  {'',
    ''   "cell_type": "code",'',
    ''   "execution_count": null,'',
    ''   "id": "mighty-logistics",'',
    ''   "metadata": {},'',
    ''   "outputs": [],'',
    ''   "source": ['',
    ''    "# general relativity'' @ bslash # ''n",'',
    ''    "'' @ bslash # ''n",'',
    ''    "# dispersion relations'' @ bslash # ''n",'',
    ''    "'' @ bslash # ''n",'',
    ''    "# intergalactic medium"'',
    ''   ]'',
    ''  }'',
    '' ],'',
    '' "metadata": {'',
    ''  "kernelspec": {'',
    ''   "display_name": "Python 3",'',
    ''   "language": "python",'',
    ''   "name": "python3"'',
    ''  },'',
    ''  "language_info": {'',
    ''   "codemirror_mode": {'',
    ''    "name": "ipython",'',
    ''    "version": 3'',
    ''   },'',
    ''   "file_extension": ".py",'',
    ''   "mimetype": "text/x-python",'',
    ''   "name": "python",'',
    ''   "nbconvert_exporter": "python",'',
    ''   "pygments_lexer": "ipython3",'',
    ''   "version": "3.8.8"'',
    ''  }'',
    '' },'',
    '' "nbformat": 4,'',
    '' "nbformat_minor": 5'',
    ''}'']\<close>

subsection \<open>UTF-8\<close>

text \<open>
  JSON text is UTF-8. The decoder's state is what it still expects: nothing (\<open>U0\<close>), a
  number of continuation bytes, or a first continuation byte from a restricted range
  (after the lead bytes E0, ED, F0 and F4).
\<close>

datatype utf8_state = U0 | U1 | U2 | U3 | UE0 | UED | UF0 | UF4 | UBad

definition in_range :: "nat \<Rightarrow> nat \<Rightarrow> char \<Rightarrow> bool" where
  "in_range lo hi c = (lo \<le> of_char c \<and> (of_char c :: nat) \<le> hi)"

fun utf8_next :: "utf8_state \<Rightarrow> char \<Rightarrow> utf8_state" where
  "utf8_next U0 c =
     (if in_range 0x00 0x7F c then U0
      else if in_range 0xC2 0xDF c then U1
      else if in_range 0xE0 0xE0 c then UE0
      else if in_range 0xED 0xED c then UED
      else if in_range 0xE1 0xEF c then U2
      else if in_range 0xF0 0xF0 c then UF0
      else if in_range 0xF1 0xF3 c then U3
      else if in_range 0xF4 0xF4 c then UF4
      else UBad)"
| "utf8_next U1 c = (if in_range 0x80 0xBF c then U0 else UBad)"
| "utf8_next U2 c = (if in_range 0x80 0xBF c then U1 else UBad)"
| "utf8_next U3 c = (if in_range 0x80 0xBF c then U2 else UBad)"
| "utf8_next UE0 c = (if in_range 0xA0 0xBF c then U1 else UBad)"
| "utf8_next UED c = (if in_range 0x80 0x9F c then U1 else UBad)"
| "utf8_next UF0 c = (if in_range 0x90 0xBF c then U2 else UBad)"
| "utf8_next UF4 c = (if in_range 0x80 0x8F c then U2 else UBad)"
| "utf8_next UBad c = UBad"

definition utf8_valid :: "string \<Rightarrow> bool" where
  "utf8_valid s = (foldl utf8_next U0 s = U0)"

subsection \<open>JSON tokens\<close>

text \<open>
  The tokens of JSON (RFC 8259). A word is a literal name or a number; it is read as a
  value by the parser. \<open>TBad\<close> stands for text that is no token.
\<close>

datatype jtoken =
  TLBrace | TRBrace | TLBrack | TRBrack | TColon | TComma
  | TString string | TWord string | TBad

datatype lex_state = LStart | LWord string | LString string | LEscape string

definition is_word_char :: "char \<Rightarrow> bool" where
  "is_word_char c = (c \<in> set ''abcdefghijklmnopqrstuvwxyz0123456789+-.E'')"

fun punct :: "char \<Rightarrow> jtoken list" where
  "punct c =
     (if c = CHR '' '' \<or> c = CHR 0x09 \<or> c = CHR 0x0A \<or> c = CHR 0x0D then []
      else if c = CHR 0x22 then []
      else if c = CHR ''{'' then [TLBrace]
      else if c = CHR ''}'' then [TRBrace]
      else if c = CHR ''['' then [TLBrack]
      else if c = CHR '']'' then [TRBrack]
      else if c = CHR '':'' then [TColon]
      else if c = CHR '','' then [TComma]
      else [TBad])"

text \<open>The character an escape stands for. The escape \<^verbatim>\<open>\u\<close> is not read.\<close>

fun unescape :: "char \<Rightarrow> char option" where
  "unescape c =
     (if c = CHR 0x22 then Some (CHR 0x22)
      else if c = bslash then Some bslash
      else if c = CHR ''/'' then Some CHR ''/''
      else if c = CHR ''b'' then Some (CHR 0x08)
      else if c = CHR ''f'' then Some (CHR 0x0C)
      else if c = CHR ''n'' then Some (CHR 0x0A)
      else if c = CHR ''r'' then Some (CHR 0x0D)
      else if c = CHR ''t'' then Some (CHR 0x09)
      else None)"

text \<open>
  The lexer reads a text character by character. Its state holds the characters of the
  word or string being read, the last one first; \<open>itrev\<close> puts them in order when the
  token is complete. The tokens read so far are kept the last one first, too.
\<close>

fun itrev :: "'a list \<Rightarrow> 'a list \<Rightarrow> 'a list" where
  "itrev [] ys = ys"
| "itrev (x # xs) ys = itrev xs (x # ys)"

fun lex_next :: "lex_state \<Rightarrow> char \<Rightarrow> lex_state" where
  "lex_next (LString s) c =
     (if c = CHR 0x22 then LStart else if c = bslash then LEscape s else LString (c # s))"
| "lex_next (LEscape s) c = (case unescape c of Some d \<Rightarrow> LString (d # s) | None \<Rightarrow> LString s)"
| "lex_next (LWord w) c =
     (if is_word_char c then LWord (c # w) else if c = CHR 0x22 then LString [] else LStart)"
| "lex_next LStart c =
     (if is_word_char c then LWord [c] else if c = CHR 0x22 then LString [] else LStart)"

fun lex_out :: "lex_state \<Rightarrow> char \<Rightarrow> jtoken list \<Rightarrow> jtoken list" where
  "lex_out (LString s) c out =
     (if c = CHR 0x22 then TString (itrev s []) # out
      else if c = bslash then out
      else if in_range 0x00 0x1F c then TBad # out
      else out)"
| "lex_out (LEscape s) c out = (case unescape c of Some d \<Rightarrow> out | None \<Rightarrow> TBad # out)"
| "lex_out (LWord w) c out =
     (if is_word_char c then out else punct c @ TWord (itrev w []) # out)"
| "lex_out LStart c out = (if is_word_char c then out else punct c @ out)"

fun lex_end :: "lex_state \<Rightarrow> jtoken list \<Rightarrow> jtoken list" where
  "lex_end LStart out = out"
| "lex_end (LWord w) out = TWord (itrev w []) # out"
| "lex_end s out = TBad # out"

fun lex :: "lex_state \<Rightarrow> jtoken list \<Rightarrow> string \<Rightarrow> jtoken list" where
  "lex s out [] = itrev (lex_end s out) []"
| "lex s out (c # cs) = lex (lex_next s c) (lex_out s c out) cs"

text \<open>
  No token spans two lines: a line feed ends a word, and in a string it must be escaped.
  So the text is read line by line.
\<close>

definition json_tokens :: "string list \<Rightarrow> jtoken list" where
  "json_tokens ls = concat (map (lex LStart []) ls)"

subsection \<open>JSON values\<close>

text \<open>A word as a value: a literal name, or an integer without fraction or exponent.\<close>

definition digit_value :: "char \<Rightarrow> nat" where
  "digit_value c = of_char c - 48"

definition is_digit :: "char \<Rightarrow> bool" where
  "is_digit c = in_range 48 57 c"

definition natural :: "string \<Rightarrow> nat option" where
  "natural w =
     (if w = [] \<or> \<not> list_all is_digit w \<or> (hd w = CHR ''0'' \<and> tl w \<noteq> []) then None
      else Some (foldl (\<lambda>n c. 10 * n + digit_value c) 0 w))"

definition word_value :: "string \<Rightarrow> json option" where
  "word_value w =
     (if w = ''true'' then Some (JBool True)
      else if w = ''false'' then Some (JBool False)
      else if w = ''null'' then Some JNull
      else (case w of
              [] \<Rightarrow> None
            | c # ds \<Rightarrow>
                if c = CHR ''-'' then map_option (\<lambda>n. JInt (- int n)) (natural ds)
                else map_option (\<lambda>n. JInt (int n)) (natural w)))"

text \<open>
  The parser reads the tokens one by one. Its state says what may come next and holds the
  containers that are still open, the innermost first, each with what it holds so far in
  reverse order.
\<close>

datatype frame = InArray "json list" | InObject "(string \<times> json) list" string

datatype pstate =
    PValue "frame list"
  | PArrayStart "frame list"
  | PObjectStart "frame list"
  | PKey "(string \<times> json) list" "frame list"
  | PColon "(string \<times> json) list" string "frame list"
  | PAfter json "frame list"
  | PFail

fun value_start :: "frame list \<Rightarrow> jtoken \<Rightarrow> pstate" where
  "value_start st TLBrack = PArrayStart st"
| "value_start st TLBrace = PObjectStart st"
| "value_start st (TString s) = PAfter (JString s) st"
| "value_start st (TWord w) = (case word_value w of Some v \<Rightarrow> PAfter v st | None \<Rightarrow> PFail)"
| "value_start st t = PFail"

fun pstep :: "pstate \<Rightarrow> jtoken \<Rightarrow> pstate" where
  "pstep (PValue st) t = value_start st t"
| "pstep (PArrayStart st) TRBrack = PAfter (JArray []) st"
| "pstep (PArrayStart st) t = value_start (InArray [] # st) t"
| "pstep (PObjectStart st) TRBrace = PAfter (JObject []) st"
| "pstep (PObjectStart st) (TString k) = PColon [] k st"
| "pstep (PKey kvs st) (TString k) = PColon kvs k st"
| "pstep (PColon kvs k st) TColon = PValue (InObject kvs k # st)"
| "pstep (PAfter v (InArray vs # st)) TComma = PValue (InArray (v # vs) # st)"
| "pstep (PAfter v (InArray vs # st)) TRBrack = PAfter (JArray (rev (v # vs))) st"
| "pstep (PAfter v (InObject kvs k # st)) TComma = PKey ((k, v) # kvs) st"
| "pstep (PAfter v (InObject kvs k # st)) TRBrace = PAfter (JObject (rev ((k, v) # kvs))) st"
| "pstep s t = PFail"

fun parsed_value :: "pstate \<Rightarrow> json option" where
  "parsed_value (PAfter v []) = Some v"
| "parsed_value s = None"

definition parse_tokens :: "jtoken list \<Rightarrow> json option" where
  "parse_tokens ts = parsed_value (foldl pstep (PValue []) ts)"

definition read_json :: "string list \<Rightarrow> json option" where
  "read_json ls = (if list_all utf8_valid ls then parse_tokens (json_tokens ls) else None)"

subsection \<open>The notebook format\<close>

text \<open>
  The schema of nbformat 4.5, for the fields a markdown or code cell can have. A raw
  cell, the third cell type of the format, is not accepted here.
\<close>

fun is_object :: "json \<Rightarrow> bool" where
  "is_object (JObject kvs) = True"
| "is_object v = False"

fun is_string :: "json \<Rightarrow> bool" where
  "is_string (JString s) = True"
| "is_string v = False"

fun keys :: "json \<Rightarrow> string list" where
  "keys (JObject kvs) = map fst kvs"
| "keys v = []"

definition is_id_char :: "char \<Rightarrow> bool" where
  "is_id_char c = (in_range 97 122 c \<or> in_range 65 90 c \<or> in_range 48 57 c
                   \<or> c = CHR ''-'' \<or> c = CHR ''_'')"

fun valid_id :: "json option \<Rightarrow> bool" where
  "valid_id (Some (JString s)) = (s \<noteq> [] \<and> length s \<le> 64 \<and> list_all is_id_char s)"
| "valid_id v = False"

fun valid_source :: "json option \<Rightarrow> bool" where
  "valid_source (Some (JString s)) = True"
| "valid_source (Some (JArray ls)) = list_all is_string ls"
| "valid_source v = False"

fun valid_metadata :: "json option \<Rightarrow> bool" where
  "valid_metadata (Some v) = is_object v"
| "valid_metadata None = False"

fun valid_execution_count :: "json option \<Rightarrow> bool" where
  "valid_execution_count (Some JNull) = True"
| "valid_execution_count (Some (JInt n)) = (0 \<le> n)"
| "valid_execution_count v = False"

fun valid_outputs :: "json option \<Rightarrow> bool" where
  "valid_outputs (Some (JArray os)) = list_all is_object os"
| "valid_outputs v = False"

definition valid_markdown_cell :: "json \<Rightarrow> bool" where
  "valid_markdown_cell c =
     (is_object c \<and> distinct (keys c)
      \<and> field ''cell_type'' c = Some (JString ''markdown'')
      \<and> valid_id (field ''id'' c)
      \<and> valid_metadata (field ''metadata'' c)
      \<and> valid_source (field ''source'' c)
      \<and> set (keys c) \<subseteq> set [''id'', ''cell_type'', ''metadata'', ''source'', ''attachments''])"

definition valid_code_cell :: "json \<Rightarrow> bool" where
  "valid_code_cell c =
     (is_object c \<and> distinct (keys c)
      \<and> field ''cell_type'' c = Some (JString ''code'')
      \<and> valid_id (field ''id'' c)
      \<and> valid_metadata (field ''metadata'' c)
      \<and> valid_source (field ''source'' c)
      \<and> valid_outputs (field ''outputs'' c)
      \<and> valid_execution_count (field ''execution_count'' c)
      \<and> set (keys c) \<subseteq>
          set [''id'', ''cell_type'', ''metadata'', ''source'', ''outputs'', ''execution_count''])"

definition valid_cell :: "json \<Rightarrow> bool" where
  "valid_cell c = (valid_markdown_cell c \<or> valid_code_cell c)"

definition valid_notebook :: "json \<Rightarrow> bool" where
  "valid_notebook nb =
     (is_object nb \<and> distinct (keys nb)
      \<and> set (keys nb) = set [''cells'', ''metadata'', ''nbformat'', ''nbformat_minor'']
      \<and> field ''nbformat'' nb = Some (JInt 4)
      \<and> field ''nbformat_minor'' nb = Some (JInt 5)
      \<and> valid_metadata (field ''metadata'' nb)
      \<and> (case field ''cells'' nb of
            Some (JArray cs) \<Rightarrow> list_all valid_cell cs \<and> distinct (map cell_id cs)
          | _ \<Rightarrow> False))"

section \<open>Evaluating the model on the notebook\<close>

text \<open>
  The character classes on the printable characters, as rewrite rules: a class is decided
  in one step instead of by arithmetic on the character code.
\<close>

lemma name_start_chars:
  "list_all is_name_start ''abcdefghijklmnopqrstuvwxyzABCDEFGHIJKLMNOPQRSTUVWXYZ_''"
  "list_all (\<lambda>c. \<not> is_name_start c) ''0123456789 !#$%&()*+,-./:;<=>?@[]^{|}~''"
  "\<not> is_name_start (CHR 0x22)" "\<not> is_name_start (CHR 0x27)" "\<not> is_name_start (CHR 0x09)"
  by (simp_all add: is_name_start_def)

lemma name_chars:
  "list_all is_name_char ''abcdefghijklmnopqrstuvwxyzABCDEFGHIJKLMNOPQRSTUVWXYZ_0123456789''"
  "list_all (\<lambda>c. \<not> is_name_char c) '' !#$%&()*+,-./:;<=>?@[]^{|}~''"
  "\<not> is_name_char (CHR 0x22)" "\<not> is_name_char (CHR 0x27)" "\<not> is_name_char (CHR 0x09)"
  by (simp_all add: is_name_char_def is_name_start_def)

lemma space_chars:
  "is_space CHR '' ''" "is_space (CHR 0x09)"
  "list_all (\<lambda>c. \<not> is_space c)
     ''abcdefghijklmnopqrstuvwxyzABCDEFGHIJKLMNOPQRSTUVWXYZ_0123456789!#$%&()*+,-./:;<=>?@[]^{|}~''"
  "\<not> is_space (CHR 0x22)" "\<not> is_space (CHR 0x27)"
  by (simp_all add: is_space_def)

lemmas char_tables =
  name_start_chars [unfolded list.pred_inject] name_chars [unfolded list.pred_inject]
  space_chars [unfolded list.pred_inject]

lemmas line_defs = parse_line_def tokens_def emit_def iskeyword_def kwlist_def

subsection \<open>The lines of the code cells\<close>

lemma cell_types:
  "cell_type competent_timeline = ''markdown''"
  "cell_type composed_starter = ''code''"
  "cell_type democratic_liver = ''markdown''"
  "cell_type signed_minneapolis = ''markdown''"
  "cell_type protective_shopping = ''code''"
  "cell_type mysterious_booth = ''markdown''"
  "cell_type shared_priest = ''markdown''"
  "cell_type ideal_holly = ''code''"
  "cell_type binary_colony = ''markdown''"
  "cell_type bfa91d73 = ''code''"
  "cell_type better_opinion = ''markdown''"
  "cell_type german_posting = ''markdown''"
  "cell_type instant_constitutional = ''code''"
  "cell_type forward_elite = ''markdown''"
  "cell_type mighty_logistics = ''code''"
  by (simp_all add: cell_type_def competent_timeline_def composed_starter_def
      democratic_liver_def signed_minneapolis_def protective_shopping_def mysterious_booth_def
      shared_priest_def ideal_holly_def binary_colony_def bfa91d73_def better_opinion_def
      german_posting_def instant_constitutional_def forward_elite_def mighty_logistics_def)

lemma cells_notebook:
  "cells notebook =
     [competent_timeline, composed_starter, democratic_liver, signed_minneapolis,
      protective_shopping, mysterious_booth, shared_priest, ideal_holly, binary_colony,
      bfa91d73, better_opinion, german_posting, instant_constitutional, forward_elite,
      mighty_logistics]"
  by (simp add: cells_def notebook_def)

lemma code_cells_notebook:
  "code_cells notebook =
     [composed_starter, protective_shopping, ideal_holly, bfa91d73,
      instant_constitutional, mighty_logistics]"
  by (simp add: code_cells_def cells_notebook cell_types)

lemma lines_composed_starter:
  "source_lines composed_starter =
     [''# these are useful packages to import for astronomy (typical syntax)'',
      ''import astropy.units as u'',
      ''import astropy.constants as c'',
      '''',
      ''# these are typical packages used in jupyter notebooks'',
      ''import numpy as np'',
      ''import matplotlib.pyplot as plt'',
      ''from tqdm import tqdm'',
      '''',
      ''# these are useful packages for science/engineering in general'',
      ''from scipy import signal'',
      ''from scipy import integrate'',
      ''from scipy import fftpack'',
      ''from scipy import optimize'',
      ''from scipy import ndimage'',
      '' '',
      ''# this is the package for plasma-related physics (it uses astropy)'',
      ''from plasmapy import dispersion'',
      ''from plasmapy import formulary'',
      ''from plasmapy import simulation'',
      '''',
      ''# to get interactive plots uncomment the '' @ CHR 0x22 # ''magic'' @ CHR 0x22 # '' line below'',
      ''# %matplotlib notebook'']"
  by (simp add: source_lines_def source_def composed_starter_def)

lemma lines_protective_shopping:
  "source_lines protective_shopping =
     [''# types of radation mechanisms'', '''',
      ''# thermal blackbody and scattering'', '''',
      ''# synchrontron and gyro radiation'', '''',
      ''# free-free '' @ CHR 0x22 # ''braking'' @ CHR 0x22 # '' emission'', '''',
      ''# molecular lines (masers)'', '''',
      ''# atomic lines (lasers)'', '''',
      ''# recombination radiation (HII regions)'']"
  by (simp add: source_lines_def source_def protective_shopping_def)

lemma lines_ideal_holly:
  "source_lines ideal_holly = [''#ariawazhere'']"
  by (simp add: source_lines_def source_def ideal_holly_def)

lemma lines_bfa91d73:
  "source_lines bfa91d73 =
     [''# basic plasma '', '''',
      ''# plasma parameter space'', '''',
      ''# Debye length (Debye-Huckle potential)'', '''',
      ''# dispersion relations (types of waves)'',
      ''Different plane waves have different propogation velocities'',
      '''']"
  by (simp add: source_lines_def source_def bfa91d73_def)

lemma lines_instant_constitutional:
  "source_lines instant_constitutional =
     [''# single dish and interferometry (angular resolution)'', '''',
      ''# fourier transforms for interferometry and spectrometry'', '''',
      ''# FRB-specific telescopes and 21cm surveys'']"
  by (simp add: source_lines_def source_def instant_constitutional_def)

lemma lines_mighty_logistics:
  "source_lines mighty_logistics =
     [''# general relativity'', '''', ''# dispersion relations'', '''',
      ''# intergalactic medium'']"
  by (simp add: source_lines_def source_def mighty_logistics_def)

subsection \<open>Compiling the code cells\<close>

lemma parse_composed_starter:
  "parse_cell composed_starter =
     Inr [Import [''astropy'', ''units''] (Some ''u''),
          Import [''astropy'', ''constants''] (Some ''c''),
          Import [''numpy''] (Some ''np''),
          Import [''matplotlib'', ''pyplot''] (Some ''plt''),
          ImportFrom [''tqdm''] ''tqdm'' None,
          ImportFrom [''scipy''] ''signal'' None,
          ImportFrom [''scipy''] ''integrate'' None,
          ImportFrom [''scipy''] ''fftpack'' None,
          ImportFrom [''scipy''] ''optimize'' None,
          ImportFrom [''scipy''] ''ndimage'' None,
          ImportFrom [''plasmapy''] ''dispersion'' None,
          ImportFrom [''plasmapy''] ''formulary'' None,
          ImportFrom [''plasmapy''] ''simulation'' None]"
  by (simp add: parse_cell_def lines_composed_starter line_defs char_tables)

lemma parse_protective_shopping: "parse_cell protective_shopping = Inr []"
  by (simp add: parse_cell_def lines_protective_shopping line_defs char_tables)

lemma parse_ideal_holly: "parse_cell ideal_holly = Inr []"
  by (simp add: parse_cell_def lines_ideal_holly line_defs char_tables)

lemma parse_bfa91d73: "parse_cell bfa91d73 = Inl (Raised SyntaxError)"
  by (simp add: parse_cell_def lines_bfa91d73 line_defs char_tables)

lemma parse_instant_constitutional: "parse_cell instant_constitutional = Inr []"
  by (simp add: parse_cell_def lines_instant_constitutional line_defs char_tables)

lemma parse_mighty_logistics: "parse_cell mighty_logistics = Inr []"
  by (simp add: parse_cell_def lines_mighty_logistics line_defs char_tables)

lemma cell_ids:
  "cell_id composed_starter = ''composed-starter''"
  "cell_id protective_shopping = ''protective-shopping''"
  "cell_id ideal_holly = ''ideal-holly''"
  "cell_id bfa91d73 = ''bfa91d73''"
  "cell_id instant_constitutional = ''instant-constitutional''"
  "cell_id mighty_logistics = ''mighty-logistics''"
  by (simp_all add: cell_id_def composed_starter_def protective_shopping_def ideal_holly_def
      bfa91d73_def instant_constitutional_def mighty_logistics_def)

lemma cell_outputs:
  "outputs composed_starter = []"
  "outputs protective_shopping = []"
  "outputs ideal_holly = []"
  "outputs bfa91d73 = []"
  "outputs instant_constitutional = []"
  "outputs mighty_logistics = []"
  by (simp_all add: outputs_def composed_starter_def protective_shopping_def ideal_holly_def
      bfa91d73_def instant_constitutional_def mighty_logistics_def)

lemma prose_line_invalid:
  "parse_line ''Different plane waves have different propogation velocities'' = Invalid"
  by (simp add: line_defs char_tables)

subsection \<open>Kinds of the lines\<close>

lemma kinds_composed_starter:
  "map line_kind (source_lines composed_starter) =
     [CommentLine, ImportLine, ImportLine, BlankLine, CommentLine, ImportLine,
      ImportLine, ImportLine, BlankLine, CommentLine, ImportLine, ImportLine,
      ImportLine, ImportLine, ImportLine, BlankLine, CommentLine, ImportLine,
      ImportLine, ImportLine, BlankLine, CommentLine, CommentLine]"
  by (simp add: lines_composed_starter line_kind_def line_defs char_tables)

lemma kinds_protective_shopping:
  "map line_kind (source_lines protective_shopping) =
     [CommentLine, BlankLine, CommentLine, BlankLine, CommentLine, BlankLine,
      CommentLine, BlankLine, CommentLine, BlankLine, CommentLine, BlankLine, CommentLine]"
  by (simp add: lines_protective_shopping line_kind_def line_defs char_tables)

lemma kinds_ideal_holly:
  "map line_kind (source_lines ideal_holly) = [CommentLine]"
  by (simp add: lines_ideal_holly line_kind_def line_defs char_tables)

lemma kinds_bfa91d73:
  "map line_kind (source_lines bfa91d73) =
     [CommentLine, BlankLine, CommentLine, BlankLine, CommentLine, BlankLine,
      CommentLine, OtherLine, BlankLine]"
  by (simp add: lines_bfa91d73 line_kind_def line_defs char_tables)

lemma kinds_instant_constitutional:
  "map line_kind (source_lines instant_constitutional) =
     [CommentLine, BlankLine, CommentLine, BlankLine, CommentLine]"
  by (simp add: lines_instant_constitutional line_kind_def line_defs char_tables)

lemma kinds_mighty_logistics:
  "map line_kind (source_lines mighty_logistics) =
     [CommentLine, BlankLine, CommentLine, BlankLine, CommentLine]"
  by (simp add: lines_mighty_logistics line_kind_def line_defs char_tables)

text \<open>The lines that are none of the three kinds, read off the kinds of all lines.\<close>

lemma other_lines_kinds:
  "other_lines c =
     map (\<lambda>(n, l). (cell_id c, n, l))
       (filter (\<lambda>(n, l). map line_kind (source_lines c) ! (n - 1) = OtherLine)
          (enumerate 1 (source_lines c)))"
proof -
  have "filter (\<lambda>(n, l). line_kind l = OtherLine) (enumerate 1 ls) =
        filter (\<lambda>(n, l). map line_kind ls ! (n - 1) = OtherLine) (enumerate 1 ls)" for ls
    by (rule filter_cong) (auto simp: in_set_enumerate_eq)
  then show ?thesis by (simp add: other_lines_def)
qed

lemma other_lines_cells:
  "other_lines composed_starter = []"
  "other_lines protective_shopping = []"
  "other_lines ideal_holly = []"
  "other_lines bfa91d73 =
     [(''bfa91d73'', 8, ''Different plane waves have different propogation velocities'')]"
  "other_lines instant_constitutional = []"
  "other_lines mighty_logistics = []"
  unfolding other_lines_kinds kinds_composed_starter kinds_protective_shopping
    kinds_ideal_holly kinds_bfa91d73 kinds_instant_constitutional kinds_mighty_logistics
  by (simp_all add: lines_composed_starter lines_protective_shopping lines_ideal_holly
      lines_bfa91d73 lines_instant_constitutional lines_mighty_logistics cell_ids
      enumerate_eq_zip upt_rec)

subsection \<open>Running statements: what can change\<close>

text \<open>
  Loading modules touches only the list of loaded modules and the effects: it appends the
  modules it runs, all among the ones asked for, and their effects in that order.
\<close>

lemma load_modules_frame:
  "load_modules e k ps = (r, k') \<Longrightarrow>
     globals k' = globals k \<and> magics_run k' = magics_run k \<and> shell_run k' = shell_run k
     \<and> backend k' = backend k"
  by (induction ps arbitrary: k) (auto simp: run_module_def split: if_splits)

lemma load_modules_effects:
  "load_modules e k ps = (r, k') \<Longrightarrow>
     \<exists>ms. set ms \<subseteq> set ps \<and> loaded k' = loaded k @ ms
          \<and> effects k' = effects k @ concat (map (on_import e) ms)"
proof (induction ps arbitrary: k)
  case Nil
  then show ?case by auto
next
  case (Cons p ps)
  show ?case
  proof (cases "p \<in> set (loaded k)")
    case True
    with Cons.prems have "load_modules e k ps = (r, k')" by simp
    from Cons.IH [OF this] show ?thesis by auto
  next
    case False
    show ?thesis
    proof (cases "has_module e p")
      case True
      with False Cons.prems have "load_modules e (run_module e p k) ps = (r, k')" by simp
      from Cons.IH [OF this] obtain ms where
        ms: "set ms \<subseteq> set ps" "loaded k' = loaded (run_module e p k) @ ms"
          "effects k' = effects (run_module e p k) @ concat (map (on_import e) ms)"
        by blast
      have "set (p # ms) \<subseteq> set (p # ps)" using ms(1) by auto
      moreover have "loaded k' = loaded k @ p # ms" using ms(2) by (simp add: run_module_def)
      moreover have "effects k' = effects k @ concat (map (on_import e) (p # ms))"
        using ms(3) by (simp add: run_module_def)
      ultimately show ?thesis by blast
    next
      case no: False
      with False Cons.prems have "k' = k" by simp
      then show ?thesis by auto
    qed
  qed
qed

lemma exec_stmt_globals:
  "exec_stmt e k s = (r, k') \<Longrightarrow> globals k' x = globals k x \<or> x \<in> set (bound_name s)"
  by (cases s rule: bound_name.cases)
    (auto simp: bind_def select_backend_def run_module_def
      split: option.splits if_splits prod.splits dest!: load_modules_frame)

lemma exec_stmt_import:
  assumes "is_import_stmt s" and "exec_stmt e k s = (r, k')"
  shows "magics_run k' = magics_run k" and "shell_run k' = shell_run k"
    and "backend k' = backend k"
    and "r \<noteq> OutsideFragment" and "r \<noteq> Raised SyntaxError"
  using assms
  by (cases s rule: bound_name.cases;
      auto simp: bind_def run_module_def split: option.splits if_splits prod.splits
        dest!: load_modules_frame)+

lemma exec_stmt_effects:
  assumes "exec_stmt e k s = (r, k')" and "is_import_stmt s"
  shows "\<exists>ms. set ms \<subseteq> set (modules_of s) \<and> loaded k' = loaded k @ ms
              \<and> effects k' = effects k @ concat (map (on_import e) ms)"
proof (cases s)
  case (Import m a)
  obtain q k1 where l1: "load_modules e k (packages m) = (q, k1)"
    by (cases "load_modules e k (packages m)") auto
  from assms(1) Import l1 have same: "loaded k' = loaded k1" "effects k' = effects k1"
    by (auto simp: bind_def split: option.splits)
  from load_modules_effects [OF l1] same Import show ?thesis by auto
next
  case (ImportFrom m n a)
  obtain q k1 where l1: "load_modules e k (packages m) = (q, k1)"
    by (cases "load_modules e k (packages m)") auto
  from load_modules_effects [OF l1] obtain ms where
    ms: "set ms \<subseteq> set (packages m)" "loaded k1 = loaded k @ ms"
      "effects k1 = effects k @ concat (map (on_import e) ms)"
    by blast
  show ?thesis
  proof (cases "q = None \<and> \<not> has_attr e m n")
    case False
    with assms(1) ImportFrom l1 have "loaded k' = loaded k1" "effects k' = effects k1"
      by (auto simp: bind_def split: option.splits if_splits)
    with ms ImportFrom show ?thesis by auto
  next
    case True
    obtain q2 k2 where l2: "load_modules e k1 [m @ [n]] = (q2, k2)"
      by (cases "load_modules e k1 [m @ [n]]") auto
    from load_modules_effects [OF l2] obtain ms2 where
      ms2: "set ms2 \<subseteq> set [m @ [n]]" "loaded k2 = loaded k1 @ ms2"
        "effects k2 = effects k1 @ concat (map (on_import e) ms2)"
      by blast
    from assms(1) ImportFrom l1 l2 True have "loaded k' = loaded k2" "effects k' = effects k2"
      by (auto simp: bind_def split: option.splits if_splits)
    with ms ms2 have "set (ms @ ms2) \<subseteq> set (packages m @ [m @ [n]])"
      and "loaded k' = loaded k @ (ms @ ms2)"
      and "effects k' = effects k @ concat (map (on_import e) (ms @ ms2))"
      by auto
    with ImportFrom show ?thesis by (metis modules_of.simps(2))
  qed
next
  case (LineMagic x)
  with assms(2) show ?thesis by simp
next
  case (ShellEscape x)
  with assms(2) show ?thesis by simp
qed

text \<open>A successful import binds its name to the module or the attribute it names.\<close>

lemma exec_stmt_binds:
  assumes "exec_stmt e k s = (Ok, k')" and "is_import_stmt s"
  shows "\<exists>v \<in> set (import_values s). globals k' (hd (bound_name s)) = Some v"
  using assms
  by (cases s rule: bound_name.cases)
    (auto simp: bind_def run_module_def split: option.splits if_splits prod.splits)

lemma run_stmts_globals:
  "run_stmts e k ss = (r, k') \<Longrightarrow> globals k' x = globals k x \<or> x \<in> set (bound_names ss)"
proof (induction ss arbitrary: k)
  case Nil
  then show ?case by simp
next
  case (Cons s ss)
  obtain r1 k1 where step: "exec_stmt e k s = (r1, k1)"
    by (cases "exec_stmt e k s") auto
  from exec_stmt_globals [OF step]
  have first: "globals k1 x = globals k x \<or> x \<in> set (bound_name s)" .
  show ?case
  proof (cases "r1 = Ok")
    case True
    with Cons.prems step have "run_stmts e k1 ss = (r, k')" by simp
    from Cons.IH [OF this] first show ?thesis by (auto simp: bound_names_def)
  next
    case False
    with Cons.prems step have "k' = k1" by (cases r1) auto
    with first show ?thesis by (auto simp: bound_names_def)
  qed
qed

lemma run_stmts_imports:
  assumes "list_all is_import_stmt ss" and "run_stmts e k ss = (r, k')"
  shows "magics_run k' = magics_run k \<and> shell_run k' = shell_run k \<and> backend k' = backend k
         \<and> r \<noteq> OutsideFragment \<and> r \<noteq> Raised SyntaxError"
  using assms
proof (induction ss arbitrary: k)
  case Nil
  then show ?case by auto
next
  case (Cons s ss)
  obtain r1 k1 where step: "exec_stmt e k s = (r1, k1)"
    by (cases "exec_stmt e k s") auto
  from Cons.prems(1) have imp: "is_import_stmt s" and rest: "list_all is_import_stmt ss"
    by simp_all
  note first = exec_stmt_import [OF imp step]
  show ?case
  proof (cases "r1 = Ok")
    case True
    with Cons.prems(2) step have "run_stmts e k1 ss = (r, k')" by simp
    from Cons.IH [OF rest this] first show ?thesis by simp
  next
    case False
    with Cons.prems(2) step have "k' = k1" "r = r1" by (cases r1; auto)+
    with first show ?thesis by simp
  qed
qed

lemma run_stmts_effects:
  assumes "list_all is_import_stmt ss" and "run_stmts e k ss = (r, k')"
  shows "\<exists>ms. set ms \<subseteq> set (concat (map modules_of ss)) \<and> loaded k' = loaded k @ ms
              \<and> effects k' = effects k @ concat (map (on_import e) ms)"
  using assms
proof (induction ss arbitrary: k)
  case Nil
  then show ?case by auto
next
  case (Cons s ss)
  obtain r1 k1 where step: "exec_stmt e k s = (r1, k1)"
    by (cases "exec_stmt e k s") auto
  from Cons.prems(1) have imp: "is_import_stmt s" and rest: "list_all is_import_stmt ss"
    by simp_all
  from exec_stmt_effects [OF step imp] obtain ms where
    ms: "set ms \<subseteq> set (modules_of s)" "loaded k1 = loaded k @ ms"
      "effects k1 = effects k @ concat (map (on_import e) ms)"
    by blast
  show ?case
  proof (cases "r1 = Ok")
    case True
    with Cons.prems(2) step have "run_stmts e k1 ss = (r, k')" by simp
    from Cons.IH [OF rest this] obtain ms' where
      ms': "set ms' \<subseteq> set (concat (map modules_of ss))" "loaded k' = loaded k1 @ ms'"
        "effects k' = effects k1 @ concat (map (on_import e) ms')"
      by blast
    from ms ms' have "set (ms @ ms') \<subseteq> set (concat (map modules_of (s # ss)))"
      and "loaded k' = loaded k @ (ms @ ms')"
      and "effects k' = effects k @ concat (map (on_import e) (ms @ ms'))"
      by auto
    then show ?thesis by blast
  next
    case False
    with Cons.prems(2) step have "k' = k1" by (cases r1) auto
    with ms have "set ms \<subseteq> set (concat (map modules_of (s # ss)))"
      and "loaded k' = loaded k @ ms"
      and "effects k' = effects k @ concat (map (on_import e) ms)"
      by auto
    then show ?thesis by blast
  qed
qed

lemma run_stmts_binds:
  assumes "run_stmts e k ss = (Ok, k')" and "list_all is_import_stmt ss"
    and "distinct (bound_names ss)"
  shows "list_all (\<lambda>s. \<exists>v \<in> set (import_values s). globals k' (hd (bound_name s)) = Some v) ss"
  using assms
proof (induction ss arbitrary: k)
  case Nil
  then show ?case by simp
next
  case (Cons s ss)
  obtain r1 k1 where step: "exec_stmt e k s = (r1, k1)"
    by (cases "exec_stmt e k s") auto
  from Cons.prems(2) have imp: "is_import_stmt s" and rest: "list_all is_import_stmt ss"
    by simp_all
  have ok: "r1 = Ok" using Cons.prems(1) step by (cases r1) auto
  with Cons.prems(1) step have run: "run_stmts e k1 ss = (Ok, k')" by simp
  from Cons.prems(3) have dist: "distinct (bound_names ss)"
    and fresh_name: "set (bound_name s) \<inter> set (bound_names ss) = {}"
    by (auto simp: bound_names_def)
  from imp have name: "hd (bound_name s) \<in> set (bound_name s)"
    by (cases s rule: bound_name.cases) auto
  from exec_stmt_binds [OF step [unfolded ok] imp] obtain v where
    v: "v \<in> set (import_values s)" "globals k1 (hd (bound_name s)) = Some v"
    by blast
  from run_stmts_globals [OF run, of "hd (bound_name s)"] name fresh_name
  have "globals k' (hd (bound_name s)) = globals k1 (hd (bound_name s))" by auto
  with v have "\<exists>v \<in> set (import_values s). globals k' (hd (bound_name s)) = Some v" by auto
  with Cons.IH [OF run rest dist] show ?case by simp
qed

lemma packages_simps:
  "packages [a] = [[a]]"
  "packages [a, b] = [[a], [a, b]]"
  by (simp_all add: packages_def upt_rec)

subsection \<open>Running the code cells\<close>

lemma imports_composed_starter:
  "import_stmts composed_starter =
     [Import [''astropy'', ''units''] (Some ''u''),
      Import [''astropy'', ''constants''] (Some ''c''),
      Import [''numpy''] (Some ''np''),
      Import [''matplotlib'', ''pyplot''] (Some ''plt''),
      ImportFrom [''tqdm''] ''tqdm'' None,
      ImportFrom [''scipy''] ''signal'' None,
      ImportFrom [''scipy''] ''integrate'' None,
      ImportFrom [''scipy''] ''fftpack'' None,
      ImportFrom [''scipy''] ''optimize'' None,
      ImportFrom [''scipy''] ''ndimage'' None,
      ImportFrom [''plasmapy''] ''dispersion'' None,
      ImportFrom [''plasmapy''] ''formulary'' None,
      ImportFrom [''plasmapy''] ''simulation'' None]"
  by (simp add: import_stmts_def cell_types lines_composed_starter line_defs char_tables)

lemma imports_other_cells:
  "import_stmts protective_shopping = []"
  "import_stmts ideal_holly = []"
  "import_stmts bfa91d73 = []"
  "import_stmts instant_constitutional = []"
  "import_stmts mighty_logistics = []"
  by (simp_all add: import_stmts_def cell_types lines_protective_shopping lines_ideal_holly
      lines_bfa91d73 lines_instant_constitutional lines_mighty_logistics line_defs char_tables)

lemma imports_markdown_cells:
  "import_stmts competent_timeline = []"
  "import_stmts democratic_liver = []"
  "import_stmts signed_minneapolis = []"
  "import_stmts mysterious_booth = []"
  "import_stmts shared_priest = []"
  "import_stmts binary_colony = []"
  "import_stmts better_opinion = []"
  "import_stmts german_posting = []"
  "import_stmts forward_elite = []"
  by (simp_all add: import_stmts_def cell_types)

lemma bound_names_composed_starter:
  "bound_names (import_stmts composed_starter) =
     [''u'', ''c'', ''np'', ''plt'', ''tqdm'', ''signal'', ''integrate'', ''fftpack'',
      ''optimize'', ''ndimage'', ''dispersion'', ''formulary'', ''simulation'']"
  by (simp add: imports_composed_starter bound_names_def)

lemma run_composed_starter:
  "run_cell e k composed_starter = run_stmts e k (import_stmts composed_starter)"
  by (simp add: run_cell_def parse_composed_starter imports_composed_starter)

lemma run_comment_cells:
  "run_cell e k protective_shopping = (Ok, k)"
  "run_cell e k ideal_holly = (Ok, k)"
  "run_cell e k instant_constitutional = (Ok, k)"
  "run_cell e k mighty_logistics = (Ok, k)"
  by (simp_all add: run_cell_def parse_protective_shopping parse_ideal_holly
      parse_instant_constitutional parse_mighty_logistics)

lemma run_bfa91d73: "run_cell e k bfa91d73 = (Raised SyntaxError, k)"
  by (simp add: run_cell_def parse_bfa91d73)

lemma run_notebook_cases:
  "run_notebook stop e k notebook =
     (case run_cell e k composed_starter of
        (r, k') \<Rightarrow>
          if stop \<and> r \<noteq> Ok then ([r], k')
          else if stop then ([r, Ok, Ok, Raised SyntaxError], k')
          else ([r, Ok, Ok, Raised SyntaxError, Ok, Ok], k'))"
  by (simp add: run_notebook_def code_cells_notebook run_comment_cells run_bfa91d73
      split: prod.splits)

lemma modules_composed_starter:
  "concat (map modules_of (import_stmts composed_starter)) =
     [[''astropy''], [''astropy'', ''units''],
      [''astropy''], [''astropy'', ''constants''],
      [''numpy''],
      [''matplotlib''], [''matplotlib'', ''pyplot''],
      [''tqdm''], [''tqdm'', ''tqdm''],
      [''scipy''], [''scipy'', ''signal''],
      [''scipy''], [''scipy'', ''integrate''],
      [''scipy''], [''scipy'', ''fftpack''],
      [''scipy''], [''scipy'', ''optimize''],
      [''scipy''], [''scipy'', ''ndimage''],
      [''plasmapy''], [''plasmapy'', ''dispersion''],
      [''plasmapy''], [''plasmapy'', ''formulary''],
      [''plasmapy''], [''plasmapy'', ''simulation'']]"
  by (simp add: imports_composed_starter packages_simps)

lemma composed_starter_effects:
  assumes "run_cell e k composed_starter = (r, k')"
  shows "magics_run k' = magics_run k" and "shell_run k' = shell_run k"
    and "r \<noteq> OutsideFragment" and "r \<noteq> Raised SyntaxError"
    and "globals k' x = globals k x \<or> x \<in> set (bound_names (import_stmts composed_starter))"
    and "backend k' = backend k"
    and "\<exists>ms. set ms \<subseteq> set (concat (map modules_of (import_stmts composed_starter)))
              \<and> loaded k' = loaded k @ ms
              \<and> effects k' = effects k @ concat (map (on_import e) ms)"
    and "r = Ok \<Longrightarrow>
         list_all (\<lambda>s. \<exists>v \<in> set (import_values s). globals k' (hd (bound_name s)) = Some v)
           (import_stmts composed_starter)"
proof -
  from assms have run: "run_stmts e k (import_stmts composed_starter) = (r, k')"
    by (simp add: run_composed_starter)
  have imps: "list_all is_import_stmt (import_stmts composed_starter)"
    by (simp add: imports_composed_starter)
  from run_stmts_imports [OF imps run]
  show "magics_run k' = magics_run k" and "shell_run k' = shell_run k"
    and "r \<noteq> OutsideFragment" and "r \<noteq> Raised SyntaxError" and "backend k' = backend k"
    by simp_all
  from run_stmts_globals [OF run]
  show "globals k' x = globals k x \<or> x \<in> set (bound_names (import_stmts composed_starter))" .
  from run_stmts_effects [OF imps run]
  show "\<exists>ms. set ms \<subseteq> set (concat (map modules_of (import_stmts composed_starter)))
              \<and> loaded k' = loaded k @ ms
              \<and> effects k' = effects k @ concat (map (on_import e) ms)" .
  have dist: "distinct (bound_names (import_stmts composed_starter))"
    by (simp add: bound_names_composed_starter)
  show "list_all (\<lambda>s. \<exists>v \<in> set (import_values s). globals k' (hd (bound_name s)) = Some v)
           (import_stmts composed_starter)" if "r = Ok"
    using run_stmts_binds [OF run [unfolded that] imps dist] .
qed

text \<open>The run of the import cell where every import succeeds, from a fresh kernel.\<close>

lemma run_composed_starter_all_installed:
  "run_cell all_installed fresh composed_starter =
     (Ok, fresh\<lparr>globals :=
        [''u'' \<mapsto> Module [''astropy'', ''units''],
         ''c'' \<mapsto> Module [''astropy'', ''constants''],
         ''np'' \<mapsto> Module [''numpy''],
         ''plt'' \<mapsto> Module [''matplotlib'', ''pyplot''],
         ''tqdm'' \<mapsto> Attr [''tqdm''] ''tqdm'',
         ''signal'' \<mapsto> Attr [''scipy''] ''signal'',
         ''integrate'' \<mapsto> Attr [''scipy''] ''integrate'',
         ''fftpack'' \<mapsto> Attr [''scipy''] ''fftpack'',
         ''optimize'' \<mapsto> Attr [''scipy''] ''optimize'',
         ''ndimage'' \<mapsto> Attr [''scipy''] ''ndimage'',
         ''dispersion'' \<mapsto> Attr [''plasmapy''] ''dispersion'',
         ''formulary'' \<mapsto> Attr [''plasmapy''] ''formulary'',
         ''simulation'' \<mapsto> Attr [''plasmapy''] ''simulation''],
       loaded :=
        [[''astropy''], [''astropy'', ''units''], [''astropy'', ''constants''], [''numpy''],
         [''matplotlib''], [''matplotlib'', ''pyplot''], [''tqdm''], [''scipy''],
         [''plasmapy'']]\<rparr>)"
  by (simp add: run_composed_starter imports_composed_starter packages_simps run_module_def
      bind_def fresh_def all_installed_def)

lemma run_composed_starter_noisy:
  "run_cell noisy fresh composed_starter =
     (Ok, fresh\<lparr>globals :=
        [''u'' \<mapsto> Module [''astropy'', ''units''],
         ''c'' \<mapsto> Module [''astropy'', ''constants''],
         ''np'' \<mapsto> Module [''numpy''],
         ''plt'' \<mapsto> Module [''matplotlib'', ''pyplot''],
         ''tqdm'' \<mapsto> Attr [''tqdm''] ''tqdm'',
         ''signal'' \<mapsto> Attr [''scipy''] ''signal'',
         ''integrate'' \<mapsto> Attr [''scipy''] ''integrate'',
         ''fftpack'' \<mapsto> Attr [''scipy''] ''fftpack'',
         ''optimize'' \<mapsto> Attr [''scipy''] ''optimize'',
         ''ndimage'' \<mapsto> Attr [''scipy''] ''ndimage'',
         ''dispersion'' \<mapsto> Attr [''plasmapy''] ''dispersion'',
         ''formulary'' \<mapsto> Attr [''plasmapy''] ''formulary'',
         ''simulation'' \<mapsto> Attr [''plasmapy''] ''simulation''],
       loaded :=
        [[''astropy''], [''astropy'', ''units''], [''astropy'', ''constants''], [''numpy''],
         [''matplotlib''], [''matplotlib'', ''pyplot''], [''tqdm''], [''scipy''],
         [''plasmapy'']],
       effects :=
        [WritesOutput, WritesOutput, WritesOutput, WritesOutput, WritesOutput, WritesOutput,
         WritesOutput, WritesOutput, WritesOutput]\<rparr>)"
  by (simp add: run_composed_starter imports_composed_starter packages_simps run_module_def
      bind_def fresh_def noisy_def)

subsection \<open>Tokens of the code cells\<close>

lemmas token_defs = tokens_def emit_def

lemma defining_lines_cells:
  "defining_lines composed_starter = []"
  "defining_lines protective_shopping = []"
  "defining_lines ideal_holly = []"
  "defining_lines bfa91d73 = []"
  "defining_lines instant_constitutional = []"
  "defining_lines mighty_logistics = []"
  by (simp_all add: defining_lines_def defining_tokens_def lines_composed_starter
      lines_protective_shopping lines_ideal_holly lines_bfa91d73 lines_instant_constitutional
      lines_mighty_logistics token_defs char_tables)

lemma calling_lines_cells:
  "calling_lines composed_starter = []"
  "calling_lines protective_shopping = []"
  "calling_lines ideal_holly = []"
  "calling_lines bfa91d73 = []"
  "calling_lines instant_constitutional = []"
  "calling_lines mighty_logistics = []"
  by (simp_all add: calling_lines_def lines_composed_starter
      lines_protective_shopping lines_ideal_holly lines_bfa91d73 lines_instant_constitutional
      lines_mighty_logistics token_defs char_tables)

lemma names_used_cells:
  "names_used protective_shopping = []"
  "names_used ideal_holly = []"
  "names_used bfa91d73 =
     [''Different'', ''plane'', ''waves'', ''have'', ''different'', ''propogation'',
      ''velocities'']"
  "names_used instant_constitutional = []"
  "names_used mighty_logistics = []"
  by (simp_all add: names_used_def cell_types lines_protective_shopping lines_ideal_holly
      lines_bfa91d73 lines_instant_constitutional lines_mighty_logistics token_defs char_tables)

lemma names_used_markdown_cells:
  "names_used competent_timeline = []"
  "names_used democratic_liver = []"
  "names_used signed_minneapolis = []"
  "names_used mysterious_booth = []"
  "names_used shared_priest = []"
  "names_used binary_colony = []"
  "names_used better_opinion = []"
  "names_used german_posting = []"
  "names_used forward_elite = []"
  by (simp_all add: names_used_def cell_types)

subsection \<open>Scanning the markdown cells\<close>

lemma markdown_cells_notebook:
  "markdown_cells notebook =
     [competent_timeline, democratic_liver, signed_minneapolis, mysterious_booth,
      shared_priest, binary_colony, better_opinion, german_posting, forward_elite]"
  by (simp add: markdown_cells_def cells_notebook cell_types)

text \<open>
  The texts are long, so they are scanned piece by piece: the scan of a text made of two
  pieces is the scan of the first, then the scan of the second from the state the first
  ends in.
\<close>

lemma md_images_append:
  "md_images s (a @ b) = md_images s a @ md_images (foldl md_next s a) b"
  by (induction a arbitrary: s) simp_all

lemma md_images_concat:
  "md_images s (concat []) = []"
  "md_images s (concat (l # ls)) = md_images s l @ md_images (foldl md_next s l) (concat ls)"
  by (simp_all add: md_images_append)

lemma html_tag_opens_append: "html_tag_opens (a @ b) = html_tag_opens a + html_tag_opens b"
  by (induction a rule: html_tag_opens.induct) simp_all

lemma html_tag_opens_concat:
  "html_tag_opens (concat []) = 0"
  "html_tag_opens (concat (l # ls)) = html_tag_opens l + html_tag_opens (concat ls)"
  by (simp_all add: html_tag_opens_append)

lemmas md_pieces =
  md_images_append md_images_concat html_tag_opens_append html_tag_opens_concat

text \<open>Outside an image, only \<^verbatim>\<open>!\<close> changes the state of the scanner.\<close>

lemma md_text_chars:
  "md_next MdText CHR ''!'' = MdBang"
  "list_all (\<lambda>c. md_next MdText c = MdText)
     ''abcdefghijklmnopqrstuvwxyzABCDEFGHIJKLMNOPQRSTUVWXYZ_0123456789 #$%&()*+,-./:;<=>?@[]^{|}~''"
  "md_next MdText (CHR 0x22) = MdText" "md_next MdText (CHR 0x27) = MdText"
  "md_next MdText bslash = MdText" "md_next MdText (CHR 0x0A) = MdText"
  "md_next MdText (CHR 0xE2) = MdText" "md_next MdText (CHR 0x80) = MdText"
  "md_next MdText (CHR 0x94) = MdText"
  by simp_all

lemmas md_table = md_text_chars [unfolded list.pred_inject]

lemma images_cells:
  "images competent_timeline = []"
  "images democratic_liver = [''images/prism.jpeg'', ''images/cenA.png'']"
  "images signed_minneapolis = [''images/sun_spectrum.png'', ''images/spectrums.jpg'']"
  "images mysterious_booth = []"
  "images shared_priest = []"
  "images binary_colony = []"
  "images better_opinion = [''images/plasma-cloud-diagram.jpg'']"
  "images german_posting = []"
  "images forward_elite = []"
  by (simp add: images_def source_def competent_timeline_def democratic_liver_def
        signed_minneapolis_def mysterious_booth_def shared_priest_def binary_colony_def
        better_opinion_def german_posting_def forward_elite_def md_pieces md_table
        del: append.simps concat.simps md_next.simps(1), simp?)+

lemma html_tag_opens_cells:
  "html_tag_opens (source competent_timeline) = 0"
  "html_tag_opens (source democratic_liver) = 0"
  "html_tag_opens (source signed_minneapolis) = 0"
  "html_tag_opens (source mysterious_booth) = 0"
  "html_tag_opens (source shared_priest) = 0"
  "html_tag_opens (source binary_colony) = 0"
  "html_tag_opens (source better_opinion) = 0"
  "html_tag_opens (source german_posting) = 0"
  "html_tag_opens (source forward_elite) = 0"
  by (simp_all add: source_def competent_timeline_def democratic_liver_def
        signed_minneapolis_def mysterious_booth_def shared_priest_def binary_colony_def
        better_opinion_def german_posting_def forward_elite_def md_pieces
        del: append.simps concat.simps)

subsection \<open>Reading the file\<close>

text \<open>
  The classes of the characters of the file, as rewrite rules: the UTF-8 decoder on ASCII
  and on the bytes of the em dash, and the lexer inside a string.
\<close>

lemma utf8_ascii:
  "list_all (\<lambda>c. utf8_next U0 c = U0)
     ''abcdefghijklmnopqrstuvwxyzABCDEFGHIJKLMNOPQRSTUVWXYZ_0123456789 !#$%&()*+,-./:;<=>?@[]^{|}~''"
  "utf8_next U0 (CHR 0x22) = U0" "utf8_next U0 (CHR 0x27) = U0" "utf8_next U0 bslash = U0"
  "utf8_next U0 (CHR 0xE2) = U2" "utf8_next U2 (CHR 0x80) = U1" "utf8_next U1 (CHR 0x94) = U0"
  by (simp_all add: in_range_def)

lemma lex_string_chars:
  "list_all (\<lambda>c. lex_next (LString s) c = LString (c # s))
     ''abcdefghijklmnopqrstuvwxyzABCDEFGHIJKLMNOPQRSTUVWXYZ_0123456789 !#$%&()*+,-./:;<=>?@[]^{|}~''"
  "list_all (\<lambda>c. lex_out (LString s) c out = out)
     ''abcdefghijklmnopqrstuvwxyzABCDEFGHIJKLMNOPQRSTUVWXYZ_0123456789 !#$%&()*+,-./:;<=>?@[]^{|}~''"
  "lex_next (LString s) (CHR 0x27) = LString (CHR 0x27 # s)" "lex_out (LString s) (CHR 0x27) out = out"
  "lex_next (LString s) (CHR 0xE2) = LString (CHR 0xE2 # s)" "lex_out (LString s) (CHR 0xE2) out = out"
  "lex_next (LString s) (CHR 0x80) = LString (CHR 0x80 # s)" "lex_out (LString s) (CHR 0x80) out = out"
  "lex_next (LString s) (CHR 0x94) = LString (CHR 0x94 # s)" "lex_out (LString s) (CHR 0x94) out = out"
  "lex_next (LString s) (CHR 0x22) = LStart" "lex_out (LString s) (CHR 0x22) out = TString (itrev s []) # out"
  "lex_next (LString s) bslash = LEscape s" "lex_out (LString s) bslash out = out"
  by (simp_all add: in_range_def)

lemma word_chars:
  "list_all is_word_char ''abcdefghijklmnopqrstuvwxyz0123456789+-.E''"
  "list_all (\<lambda>c. \<not> is_word_char c) ''ABCDFGHIJKLMNOPQRSTUVWXYZ_ !#$%&()*,/:;<=>?@[]^{|}~''"
  "\<not> is_word_char (CHR 0x22)" "\<not> is_word_char (CHR 0x27)" "\<not> is_word_char bslash"
  by (simp_all add: is_word_char_def)

lemmas json_tables =
  utf8_ascii [unfolded list.pred_inject] lex_string_chars [unfolded list.pred_inject]
  word_chars [unfolded list.pred_inject]

lemma utf8_ipynb: "list_all utf8_valid ipynb"
  by (simp add: ipynb_def utf8_valid_def json_tables in_range_def del: utf8_next.simps(1))

lemma parse_ipynb: "parse_tokens (json_tokens ipynb) = Some notebook"
  by (simp add: ipynb_def json_tokens_def json_tables in_range_def parse_tokens_def word_value_def
      natural_def is_digit_def digit_value_def notebook_def
      competent_timeline_def composed_starter_def democratic_liver_def signed_minneapolis_def
      protective_shopping_def mysterious_booth_def shared_priest_def ideal_holly_def
      binary_colony_def bfa91d73_def better_opinion_def german_posting_def
      instant_constitutional_def forward_elite_def mighty_logistics_def
      del: lex_next.simps(1) lex_out.simps(1))

lemma all_cell_ids:
  "map cell_id (cells notebook) =
     [''competent-timeline'', ''composed-starter'', ''democratic-liver'',
      ''signed-minneapolis'', ''protective-shopping'', ''mysterious-booth'', ''shared-priest'',
      ''ideal-holly'', ''binary-colony'', ''bfa91d73'', ''better-opinion'', ''german-posting'',
      ''instant-constitutional'', ''forward-elite'', ''mighty-logistics'']"
  by (simp add: cells_notebook cell_id_def competent_timeline_def composed_starter_def
      democratic_liver_def signed_minneapolis_def protective_shopping_def mysterious_booth_def
      shared_priest_def ideal_holly_def binary_colony_def bfa91d73_def better_opinion_def
      german_posting_def instant_constitutional_def forward_elite_def mighty_logistics_def)

lemma valid_markdown_cells:
  "valid_markdown_cell competent_timeline"
  "valid_markdown_cell democratic_liver"
  "valid_markdown_cell signed_minneapolis"
  "valid_markdown_cell mysterious_booth"
  "valid_markdown_cell shared_priest"
  "valid_markdown_cell binary_colony"
  "valid_markdown_cell better_opinion"
  "valid_markdown_cell german_posting"
  "valid_markdown_cell forward_elite"
  by (simp_all add: valid_markdown_cell_def is_id_char_def in_range_def competent_timeline_def
      democratic_liver_def signed_minneapolis_def mysterious_booth_def shared_priest_def
      binary_colony_def better_opinion_def german_posting_def forward_elite_def
      del: append.simps)

lemma valid_code_cells:
  "valid_code_cell composed_starter"
  "valid_code_cell protective_shopping"
  "valid_code_cell ideal_holly"
  "valid_code_cell bfa91d73"
  "valid_code_cell instant_constitutional"
  "valid_code_cell mighty_logistics"
  by (simp_all add: valid_code_cell_def is_id_char_def in_range_def composed_starter_def
      protective_shopping_def ideal_holly_def bfa91d73_def instant_constitutional_def
      mighty_logistics_def)

lemma valid_notebook_notebook: "valid_notebook notebook"
proof -
  have top: "field ''cells'' notebook = Some (JArray (cells notebook))"
    "is_object notebook" "keys notebook = [''cells'', ''metadata'', ''nbformat'', ''nbformat_minor'']"
    "field ''nbformat'' notebook = Some (JInt 4)" "field ''nbformat_minor'' notebook = Some (JInt 5)"
    "valid_metadata (field ''metadata'' notebook)"
    by (simp_all add: notebook_def cells_def)
  have "list_all valid_cell (cells notebook)"
    by (simp add: cells_notebook valid_cell_def valid_markdown_cells valid_code_cells)
  moreover have "distinct (map cell_id (cells notebook))"
    unfolding all_cell_ids by simp
  ultimately show ?thesis
    by (simp add: valid_notebook_def top)
qed

section \<open>The claims\<close>

text \<open>
  C1. Every code cell consists solely of import statements, comment lines and blank lines.

  The theorem gives the kind of every line of every code cell. All lines are of the three
  kinds but one: line 8 of the cell \<^verbatim>\<open>bfa91d73\<close> is a sentence of prose that
  lacks its \<^verbatim>\<open>#\<close>.
\<close>

theorem code_cell_line_kinds:
  "map (\<lambda>c. map line_kind (source_lines c)) (code_cells notebook) =
     [[CommentLine, ImportLine, ImportLine, BlankLine, CommentLine, ImportLine,
       ImportLine, ImportLine, BlankLine, CommentLine, ImportLine, ImportLine,
       ImportLine, ImportLine, ImportLine, BlankLine, CommentLine, ImportLine,
       ImportLine, ImportLine, BlankLine, CommentLine, CommentLine],
      [CommentLine, BlankLine, CommentLine, BlankLine, CommentLine, BlankLine,
       CommentLine, BlankLine, CommentLine, BlankLine, CommentLine, BlankLine, CommentLine],
      [CommentLine],
      [CommentLine, BlankLine, CommentLine, BlankLine, CommentLine, BlankLine,
       CommentLine, OtherLine, BlankLine],
      [CommentLine, BlankLine, CommentLine, BlankLine, CommentLine],
      [CommentLine, BlankLine, CommentLine, BlankLine, CommentLine]]
   \<and> concat (map other_lines (code_cells notebook)) =
     [(''bfa91d73'', 8, ''Different plane waves have different propogation velocities'')]"
  by (simp add: code_cells_notebook kinds_composed_starter kinds_protective_shopping
      kinds_ideal_holly kinds_bfa91d73 kinds_instant_constitutional kinds_mighty_logistics
      other_lines_cells)

text \<open>
  C2. When the code cells are run in order, the only failure that can occur is a failed
  import in the import cell.

  The theorem gives the outcome of every cell of a run that goes on after a failure,
  whatever is installed and whatever the kernel holds: the fourth cell raises a syntax
  error. Where every import succeeds, the run that stops at the first failure stops
  there, with that error.
\<close>

theorem run_all_raises_SyntaxError:
  "fst (run_notebook False e k notebook) =
     [fst (run_cell e k composed_starter), Ok, Ok, Raised SyntaxError, Ok, Ok]
   \<and> fst (run_notebook True all_installed fresh notebook) = [Ok, Ok, Ok, Raised SyntaxError]"
  by (simp add: run_notebook_cases run_composed_starter_all_installed split: prod.splits)

text \<open>
  C3. No code cell defines a function, a class, a data structure or anything else that
  could be used again.

  No line of a code cell holds \<^verbatim>\<open>def\<close>, \<^verbatim>\<open>class\<close>, \<^verbatim>\<open>lambda\<close> or an
  assignment, and a cell that compiles compiles to import statements only.
\<close>

theorem no_definitions_in_code_cells:
  "concat (map defining_lines (code_cells notebook)) = []
   \<and> list_all
        (\<lambda>c. case parse_cell c of
                Inr ss \<Rightarrow> list_all is_import_stmt ss
              | Inl r \<Rightarrow> r = Raised SyntaxError)
        (code_cells notebook)"
  by (simp add: code_cells_notebook defining_lines_cells parse_composed_starter
      parse_protective_shopping parse_ideal_holly parse_bfa91d73 parse_instant_constitutional
      parse_mighty_logistics)

text \<open>
  C4. Exactly one cell contains import statements, and no name bound by them (u, c, np,
  plt, tqdm, signal, integrate, fftpack, optimize, ndimage, dispersion, formulary,
  simulation) is used in any other cell.

  The names used in the other cells are the seven words of the prose line; none of
  them is bound by an import.
\<close>

theorem one_import_cell_names_unused:
  "filter has_imports (cells notebook) = [composed_starter]
   \<and> cell_type composed_starter = ''code''
   \<and> bound_names (import_stmts composed_starter) =
       [''u'', ''c'', ''np'', ''plt'', ''tqdm'', ''signal'', ''integrate'', ''fftpack'',
        ''optimize'', ''ndimage'', ''dispersion'', ''formulary'', ''simulation'']
   \<and> concat (map names_used (filter (\<lambda>c. \<not> has_imports c) (cells notebook))) =
       [''Different'', ''plane'', ''waves'', ''have'', ''different'', ''propogation'',
        ''velocities'']
   \<and> list_all (\<lambda>x. x \<notin> set (bound_names (import_stmts composed_starter)))
        (concat (map names_used (filter (\<lambda>c. \<not> has_imports c) (cells notebook))))"
  by (simp add: cells_notebook has_imports_def imports_composed_starter imports_other_cells
      imports_markdown_cells cell_types names_used_cells names_used_markdown_cells
      bound_names_def)

text \<open>
  C5. The notebook file is a valid JSON document: an ordered sequence of cells, each
  tagged with the cell type \<^verbatim>\<open>markdown\<close> or \<^verbatim>\<open>code\<close> and no other, conforming
  to nbformat 4.

  The text of the file is valid UTF-8 and parses as JSON, to the value the rest of this
  theory is about; that value conforms to the schema of nbformat 4.5; and its fifteen
  cells have the cell types listed, each of them \<^verbatim>\<open>markdown\<close> or \<^verbatim>\<open>code\<close>.
\<close>

theorem ipynb_is_valid_nbformat4:
  "read_json ipynb = Some notebook
   \<and> valid_notebook notebook
   \<and> field ''nbformat'' notebook = Some (JInt 4)
   \<and> map cell_type (cells notebook) =
       [''markdown'', ''code'', ''markdown'', ''markdown'', ''code'', ''markdown'',
        ''markdown'', ''code'', ''markdown'', ''code'', ''markdown'', ''markdown'', ''code'',
        ''markdown'', ''code'']
   \<and> list_all (\<lambda>c. cell_type c \<in> set [''markdown'', ''code'']) (cells notebook)"
proof (intro conjI)
  show "read_json ipynb = Some notebook"
    by (simp add: read_json_def utf8_ipynb parse_ipynb)
  show "valid_notebook notebook"
    by (rule valid_notebook_notebook)
  show "field ''nbformat'' notebook = Some (JInt 4)"
    by (simp add: notebook_def)
  show "map cell_type (cells notebook) =
       [''markdown'', ''code'', ''markdown'', ''markdown'', ''code'', ''markdown'',
        ''markdown'', ''code'', ''markdown'', ''code'', ''markdown'', ''markdown'', ''code'',
        ''markdown'', ''code'']"
    by (simp add: cells_notebook cell_types)
  show "list_all (\<lambda>c. cell_type c \<in> set [''markdown'', ''code'']) (cells notebook)"
    by (simp add: cells_notebook cell_types)
qed

text \<open>
  C6. Every image shown by a markdown cell is referenced by a relative path under
  \<^verbatim>\<open>images/\<close>; none is embedded by an absolute path or fetched by the code.

  The markdown cells reference five images, all of them so; they hold no HTML tag; and
  the code cells hold no call and no stored output.
\<close>

theorem images_by_relative_path:
  "concat (map images (markdown_cells notebook)) =
     [''images/prism.jpeg'', ''images/cenA.png'', ''images/sun_spectrum.png'',
      ''images/spectrums.jpg'', ''images/plasma-cloud-diagram.jpg'']
   \<and> list_all (\<lambda>p. is_relative p \<and> under_images p)
        (concat (map images (markdown_cells notebook)))
   \<and> list_all (\<lambda>c. html_tag_opens (source c) = 0) (markdown_cells notebook)
   \<and> list_all (\<lambda>c. calling_lines c = [] \<and> outputs c = []) (code_cells notebook)"
  by (simp add: markdown_cells_notebook images_cells html_tag_opens_cells is_relative_def
      under_images_def code_cells_notebook calling_lines_cells cell_outputs)

text \<open>
  C7. Running the code cells creates no binding but the names introduced by the import
  cell, and no later cell changes a binding.

  Whatever is installed, after a run a name is bound as before unless it is one of the
  thirteen imported names; each of the five later cells leaves the kernel as it found
  it; and where every import succeeds the run binds exactly the thirteen names.
\<close>

theorem bindings_only_from_import_cell:
  "(\<forall>stop e k x.
      globals (snd (run_notebook stop e k notebook)) x = globals k x
      \<or> x \<in> set [''u'', ''c'', ''np'', ''plt'', ''tqdm'', ''signal'', ''integrate'',
                  ''fftpack'', ''optimize'', ''ndimage'', ''dispersion'', ''formulary'',
                  ''simulation''])
   \<and> list_all (\<lambda>c. \<forall>e k. snd (run_cell e k c) = k) (tl (code_cells notebook))
   \<and> globals (snd (run_notebook False all_installed fresh notebook)) =
       [''u'' \<mapsto> Module [''astropy'', ''units''],
        ''c'' \<mapsto> Module [''astropy'', ''constants''],
        ''np'' \<mapsto> Module [''numpy''],
        ''plt'' \<mapsto> Module [''matplotlib'', ''pyplot''],
        ''tqdm'' \<mapsto> Attr [''tqdm''] ''tqdm'',
        ''signal'' \<mapsto> Attr [''scipy''] ''signal'',
        ''integrate'' \<mapsto> Attr [''scipy''] ''integrate'',
        ''fftpack'' \<mapsto> Attr [''scipy''] ''fftpack'',
        ''optimize'' \<mapsto> Attr [''scipy''] ''optimize'',
        ''ndimage'' \<mapsto> Attr [''scipy''] ''ndimage'',
        ''dispersion'' \<mapsto> Attr [''plasmapy''] ''dispersion'',
        ''formulary'' \<mapsto> Attr [''plasmapy''] ''formulary'',
        ''simulation'' \<mapsto> Attr [''plasmapy''] ''simulation'']"
proof (intro conjI allI)
  fix stop e k x
  obtain r k' where run: "run_cell e k composed_starter = (r, k')"
    by (cases "run_cell e k composed_starter") auto
  from composed_starter_effects(5) [OF run, of x]
  have "globals k' x = globals k x
        \<or> x \<in> set [''u'', ''c'', ''np'', ''plt'', ''tqdm'', ''signal'', ''integrate'',
                    ''fftpack'', ''optimize'', ''ndimage'', ''dispersion'', ''formulary'',
                    ''simulation'']"
    by (simp only: bound_names_composed_starter)
  moreover have "snd (run_notebook stop e k notebook) = k'"
    by (simp add: run_notebook_cases run)
  ultimately show "globals (snd (run_notebook stop e k notebook)) x = globals k x
        \<or> x \<in> set [''u'', ''c'', ''np'', ''plt'', ''tqdm'', ''signal'', ''integrate'',
                    ''fftpack'', ''optimize'', ''ndimage'', ''dispersion'', ''formulary'',
                    ''simulation'']"
    by simp
next
  show "list_all (\<lambda>c. \<forall>e k. snd (run_cell e k c) = k) (tl (code_cells notebook))"
    by (simp add: code_cells_notebook run_comment_cells run_bfa91d73)
next
  show "globals (snd (run_notebook False all_installed fresh notebook)) =
       [''u'' \<mapsto> Module [''astropy'', ''units''],
        ''c'' \<mapsto> Module [''astropy'', ''constants''],
        ''np'' \<mapsto> Module [''numpy''],
        ''plt'' \<mapsto> Module [''matplotlib'', ''pyplot''],
        ''tqdm'' \<mapsto> Attr [''tqdm''] ''tqdm'',
        ''signal'' \<mapsto> Attr [''scipy''] ''signal'',
        ''integrate'' \<mapsto> Attr [''scipy''] ''integrate'',
        ''fftpack'' \<mapsto> Attr [''scipy''] ''fftpack'',
        ''optimize'' \<mapsto> Attr [''scipy''] ''optimize'',
        ''ndimage'' \<mapsto> Attr [''scipy''] ''ndimage'',
        ''dispersion'' \<mapsto> Attr [''plasmapy''] ''dispersion'',
        ''formulary'' \<mapsto> Attr [''plasmapy''] ''formulary'',
        ''simulation'' \<mapsto> Attr [''plasmapy''] ''simulation'']"
    by (simp add: run_notebook_cases run_composed_starter_all_installed)
qed

text \<open>
  C8. No code cell opens a file, makes a network request, writes output or calls a
  plotting or display function.

  As stated this fails: an import runs the code of the module it loads, and that code may
  do any of these (see the counterexample below). What holds of the cells themselves: no
  code cell holds a call or a stored output; a run of the notebook, whatever is installed,
  runs no magic and no shell command and never leaves the fragment of the model; every
  effect of a run is an effect of the code of a module named in the import cell, run when
  the module is loaded; each of the five later cells has no effect at all; and where the
  modules do nothing when they are loaded a run has no effect.
\<close>

theorem code_cell_effects_are_module_effects:
  "list_all (\<lambda>c. outputs c = [] \<and> calling_lines c = []) (code_cells notebook)
   \<and> (\<forall>stop e k.
         magics_run (snd (run_notebook stop e k notebook)) = magics_run k
         \<and> shell_run (snd (run_notebook stop e k notebook)) = shell_run k
         \<and> OutsideFragment \<notin> set (fst (run_notebook stop e k notebook))
         \<and> (\<exists>ms. set ms \<subseteq> set (concat (map modules_of (import_stmts composed_starter)))
                \<and> loaded (snd (run_notebook stop e k notebook)) = loaded k @ ms
                \<and> effects (snd (run_notebook stop e k notebook)) =
                    effects k @ concat (map (on_import e) ms)))
   \<and> set (concat (map modules_of (import_stmts composed_starter))) =
       set [[''astropy''], [''astropy'', ''units''], [''astropy'', ''constants''], [''numpy''],
            [''matplotlib''], [''matplotlib'', ''pyplot''], [''tqdm''], [''tqdm'', ''tqdm''],
            [''scipy''], [''scipy'', ''signal''], [''scipy'', ''integrate''],
            [''scipy'', ''fftpack''], [''scipy'', ''optimize''], [''scipy'', ''ndimage''],
            [''plasmapy''], [''plasmapy'', ''dispersion''], [''plasmapy'', ''formulary''],
            [''plasmapy'', ''simulation'']]
   \<and> list_all (\<lambda>c. \<forall>e k. snd (run_cell e k c) = k) (tl (code_cells notebook))
   \<and> effects (snd (run_notebook False all_installed fresh notebook)) = []"
proof (intro conjI allI)
  show "list_all (\<lambda>c. outputs c = [] \<and> calling_lines c = []) (code_cells notebook)"
    by (simp add: code_cells_notebook cell_outputs calling_lines_cells)
next
  fix stop e k
  obtain r k' where run: "run_cell e k composed_starter = (r, k')"
    by (cases "run_cell e k composed_starter") auto
  note eff = composed_starter_effects(1-4) [OF run]
  have final: "snd (run_notebook stop e k notebook) = k'"
    by (simp add: run_notebook_cases run)
  show "magics_run (snd (run_notebook stop e k notebook)) = magics_run k"
    using eff by (simp add: final)
  show "shell_run (snd (run_notebook stop e k notebook)) = shell_run k"
    using eff by (simp add: final)
  show "OutsideFragment \<notin> set (fst (run_notebook stop e k notebook))"
    using eff by (auto simp: run_notebook_cases run)
  show "\<exists>ms. set ms \<subseteq> set (concat (map modules_of (import_stmts composed_starter)))
              \<and> loaded (snd (run_notebook stop e k notebook)) = loaded k @ ms
              \<and> effects (snd (run_notebook stop e k notebook)) =
                  effects k @ concat (map (on_import e) ms)"
    using composed_starter_effects(7) [OF run] by (simp only: final)
next
  show "set (concat (map modules_of (import_stmts composed_starter))) =
       set [[''astropy''], [''astropy'', ''units''], [''astropy'', ''constants''], [''numpy''],
            [''matplotlib''], [''matplotlib'', ''pyplot''], [''tqdm''], [''tqdm'', ''tqdm''],
            [''scipy''], [''scipy'', ''signal''], [''scipy'', ''integrate''],
            [''scipy'', ''fftpack''], [''scipy'', ''optimize''], [''scipy'', ''ndimage''],
            [''plasmapy''], [''plasmapy'', ''dispersion''], [''plasmapy'', ''formulary''],
            [''plasmapy'', ''simulation'']]"
    unfolding modules_composed_starter by auto
next
  show "list_all (\<lambda>c. \<forall>e k. snd (run_cell e k c) = k) (tl (code_cells notebook))"
    by (simp add: code_cells_notebook run_comment_cells run_bfa91d73)
next
  show "effects (snd (run_notebook False all_installed fresh notebook)) = []"
    by (simp add: run_notebook_cases run_composed_starter_all_installed, simp add: fresh_def)
qed

text \<open>
  The counterexample to C8 as stated: in a kernel where every import succeeds and every
  module writes a line of output when it is loaded, running the code cells writes nine
  lines, one for each module the import cell loads.
\<close>

theorem run_writes_output_counterexample:
  "effects (snd (run_notebook False noisy fresh notebook)) =
     [WritesOutput, WritesOutput, WritesOutput, WritesOutput, WritesOutput, WritesOutput,
      WritesOutput, WritesOutput, WritesOutput]"
  by (simp add: run_notebook_cases run_composed_starter_noisy)

text \<open>
  C9. The code cell \<^verbatim>\<open>bfa91d73\<close> is not valid Python: it contains the prose line
  ``Different plane waves have different propogation velocities'', so running it raises a
  syntax error whether or not any import succeeds.
\<close>

theorem bfa91d73_raises_SyntaxError:
  "code_cells notebook ! 3 = bfa91d73
   \<and> cell_id bfa91d73 = ''bfa91d73''
   \<and> source_lines bfa91d73 ! 7 = ''Different plane waves have different propogation velocities''
   \<and> parse_line (source_lines bfa91d73 ! 7) = Invalid
   \<and> parse_cell bfa91d73 = Inl (Raised SyntaxError)
   \<and> (\<forall>e k. run_cell e k bfa91d73 = (Raised SyntaxError, k))"
  by (simp add: code_cells_notebook cell_ids lines_bfa91d73 prose_line_invalid parse_bfa91d73
      run_bfa91d73)

text \<open>
  C10. The magic line \<^verbatim>\<open>%matplotlib notebook\<close> of the import cell is commented out:
  running the cell invokes no magic and selects no plotting backend; its only effect is
  to bind the imported names.

  The last clause fails as stated: an import also loads the module and runs its code (see
  the counterexample below). What holds: the last line of the cell is a comment, where
  the same line without its \<^verbatim>\<open>#\<close> would be a magic that selects the backend
  \<^verbatim>\<open>notebook\<close>; the cell compiles to its thirteen imports; running it, whatever is
  installed, runs no magic and no shell command and leaves the backend as it was; when
  the run succeeds each of the thirteen names is bound to the module or attribute it
  imports; no other binding changes; and the other effects of the run are those of the
  code of the modules it loads, all named in the cell.
\<close>

theorem import_cell_runs_no_magic:
  "last (source_lines composed_starter) = ''# %matplotlib notebook''
   \<and> line_kind ''# %matplotlib notebook'' = CommentLine
   \<and> parse_line ''# %matplotlib notebook'' = Blank
   \<and> parse_line ''%matplotlib notebook'' = Statement (LineMagic ''matplotlib notebook'')
   \<and> (\<forall>e k. magics_run (snd (exec_stmt e k (LineMagic ''matplotlib notebook''))) =
               magics_run k @ [''matplotlib notebook'']
            \<and> backend (snd (exec_stmt e k (LineMagic ''matplotlib notebook''))) =
               Some ''notebook'')
   \<and> parse_cell composed_starter = Inr (import_stmts composed_starter)
   \<and> list_all is_import_stmt (import_stmts composed_starter)
   \<and> bound_names (import_stmts composed_starter) =
       [''u'', ''c'', ''np'', ''plt'', ''tqdm'', ''signal'', ''integrate'', ''fftpack'',
        ''optimize'', ''ndimage'', ''dispersion'', ''formulary'', ''simulation'']
   \<and> (\<forall>e k. magics_run (snd (run_cell e k composed_starter)) = magics_run k
            \<and> shell_run (snd (run_cell e k composed_starter)) = shell_run k
            \<and> backend (snd (run_cell e k composed_starter)) = backend k
            \<and> (\<forall>x. globals (snd (run_cell e k composed_starter)) x = globals k x
                    \<or> x \<in> set (bound_names (import_stmts composed_starter)))
            \<and> (\<exists>ms. set ms \<subseteq> set (concat (map modules_of (import_stmts composed_starter)))
                   \<and> loaded (snd (run_cell e k composed_starter)) = loaded k @ ms
                   \<and> effects (snd (run_cell e k composed_starter)) =
                       effects k @ concat (map (on_import e) ms))
            \<and> (fst (run_cell e k composed_starter) = Ok \<longrightarrow>
                 list_all
                   (\<lambda>s. \<exists>v \<in> set (import_values s).
                          globals (snd (run_cell e k composed_starter)) (hd (bound_name s)) =
                            Some v)
                   (import_stmts composed_starter)))"
proof (intro conjI allI impI)
  show "last (source_lines composed_starter) = ''# %matplotlib notebook''"
    by (simp add: lines_composed_starter)
  show "line_kind ''# %matplotlib notebook'' = CommentLine"
    by (simp add: line_kind_def char_tables)
  show "parse_line ''# %matplotlib notebook'' = Blank"
    by (simp add: line_defs char_tables)
  show "parse_line ''%matplotlib notebook'' = Statement (LineMagic ''matplotlib notebook'')"
    by (simp add: line_defs char_tables)
  show "parse_cell composed_starter = Inr (import_stmts composed_starter)"
    by (simp add: parse_composed_starter imports_composed_starter)
  show "list_all is_import_stmt (import_stmts composed_starter)"
    by (simp add: imports_composed_starter)
  show "bound_names (import_stmts composed_starter) =
       [''u'', ''c'', ''np'', ''plt'', ''tqdm'', ''signal'', ''integrate'', ''fftpack'',
        ''optimize'', ''ndimage'', ''dispersion'', ''formulary'', ''simulation'']"
    by (rule bound_names_composed_starter)
next
  fix e k
  show "magics_run (snd (exec_stmt e k (LineMagic ''matplotlib notebook''))) =
          magics_run k @ [''matplotlib notebook'']"
    by (simp add: select_backend_def)
  show "backend (snd (exec_stmt e k (LineMagic ''matplotlib notebook''))) = Some ''notebook''"
    by (simp add: select_backend_def)
next
  fix e k
  obtain r k' where run: "run_cell e k composed_starter = (r, k')"
    by (cases "run_cell e k composed_starter") auto
  note eff = composed_starter_effects [OF run]
  show "magics_run (snd (run_cell e k composed_starter)) = magics_run k"
    using eff(1) by (simp add: run)
  show "shell_run (snd (run_cell e k composed_starter)) = shell_run k"
    using eff(2) by (simp add: run)
  show "backend (snd (run_cell e k composed_starter)) = backend k"
    using eff(6) by (simp add: run)
  show "\<exists>ms. set ms \<subseteq> set (concat (map modules_of (import_stmts composed_starter)))
              \<and> loaded (snd (run_cell e k composed_starter)) = loaded k @ ms
              \<and> effects (snd (run_cell e k composed_starter)) =
                  effects k @ concat (map (on_import e) ms)"
    using eff(7) by (simp only: run snd_conv)
  show "list_all
          (\<lambda>s. \<exists>v \<in> set (import_values s).
                 globals (snd (run_cell e k composed_starter)) (hd (bound_name s)) = Some v)
          (import_stmts composed_starter)"
    if "fst (run_cell e k composed_starter) = Ok"
    using eff(8) that by (simp only: run fst_conv snd_conv)
  fix x
  show "globals (snd (run_cell e k composed_starter)) x = globals k x
          \<or> x \<in> set (bound_names (import_stmts composed_starter))"
    using eff(5) [of x] by (simp add: run)
qed

text \<open>
  The theorem at a kernel where every import succeeds, from a fresh state: the run
  succeeds, so each of the thirteen names is bound to what it imports.
\<close>

theorem import_cell_runs_no_magic_witness:
  "fst (run_cell all_installed fresh composed_starter) = Ok
   \<and> list_all
        (\<lambda>s. \<exists>v \<in> set (import_values s).
               globals (snd (run_cell all_installed fresh composed_starter)) (hd (bound_name s)) =
                 Some v)
        (import_stmts composed_starter)"
proof -
  have ok: "fst (run_cell all_installed fresh composed_starter) = Ok"
    by (simp add: run_composed_starter_all_installed)
  from import_cell_runs_no_magic
  have "fst (run_cell all_installed fresh composed_starter) = Ok \<longrightarrow>
        list_all
          (\<lambda>s. \<exists>v \<in> set (import_values s).
                 globals (snd (run_cell all_installed fresh composed_starter)) (hd (bound_name s)) =
                   Some v)
          (import_stmts composed_starter)"
    by blast
  with ok show ?thesis by blast
qed

text \<open>
  The counterexample to the last clause of C10 as stated: in a kernel where every import
  succeeds and every module writes a line of output when it is loaded, the import cell
  runs without error, loads nine modules and writes nine lines.
\<close>

theorem import_cell_effects_counterexample:
  "fst (run_cell noisy fresh composed_starter) = Ok
   \<and> loaded (snd (run_cell noisy fresh composed_starter)) =
       [[''astropy''], [''astropy'', ''units''], [''astropy'', ''constants''], [''numpy''],
        [''matplotlib''], [''matplotlib'', ''pyplot''], [''tqdm''], [''scipy''],
        [''plasmapy'']]
   \<and> effects (snd (run_cell noisy fresh composed_starter)) =
       [WritesOutput, WritesOutput, WritesOutput, WritesOutput, WritesOutput, WritesOutput,
        WritesOutput, WritesOutput, WritesOutput]"
  by (simp add: run_composed_starter_noisy)

end
